theory Spec2Isabelle
  imports Main "HOL-Library.Word" "HOL-Library.Sublist"
begin

section \<open>Strings\<close>

text \<open>
  A JavaScript string is a sequence of UTF-16 code units. The string iterator used by the
  spread \<^verbatim>\<open>[...str]\<close> yields one element per code point: a high surrogate directly
  followed by a low surrogate is one element of two units, every other unit is an element
  of its own (also an unpaired surrogate).
\<close>

type_synonym jsstring = "16 word list"

definition isHighSurrogate :: "16 word \<Rightarrow> bool" where
  "isHighSurrogate u = (0xD800 \<le> u \<and> u \<le> 0xDBFF)"

definition isLowSurrogate :: "16 word \<Rightarrow> bool" where
  "isLowSurrogate u = (0xDC00 \<le> u \<and> u \<le> 0xDFFF)"

fun spread :: "jsstring \<Rightarrow> jsstring list" where
  "spread [] = []"
| "spread [u] = [[u]]"
| "spread (u # v # rest) =
     (if isHighSurrogate u \<and> isLowSurrogate v then [u, v] # spread rest
      else [u] # spread (v # rest))"

text \<open>\<^verbatim>\<open>_reverseString(str) = [...str].reverse().join('')\<close>\<close>

definition reverseString :: "jsstring \<Rightarrow> jsstring" where
  "reverseString str = concat (rev (spread str))"

text \<open>
  A string is well formed when it has no unpaired surrogate: every element the iterator
  yields is a unit outside the surrogate range or a high surrogate with its low surrogate.
\<close>

definition codePoint :: "jsstring \<Rightarrow> bool" where
  "codePoint cp =
     (case cp of
        [u] \<Rightarrow> \<not> isHighSurrogate u \<and> \<not> isLowSurrogate u
      | [u, v] \<Rightarrow> isHighSurrogate u \<and> isLowSurrogate v
      | _ \<Rightarrow> False)"

definition wellFormed :: "jsstring \<Rightarrow> bool" where
  "wellFormed str = list_all codePoint (spread str)"

text \<open>
  \<^verbatim>\<open>str.toWellFormed()\<close>: every unpaired surrogate replaced by U+FFFD. This is what
  encoding a string as UTF-8 and decoding it again gives, an unpaired surrogate having no
  UTF-8 encoding.
\<close>

definition toWellFormed :: "jsstring \<Rightarrow> jsstring" where
  "toWellFormed str = concat (map (\<lambda>cp. if codePoint cp then cp else [0xFFFD]) (spread str))"

text \<open>
  The number of bytes of the UTF-8 encoding of a string: one to three bytes for a code
  point of one unit (three for U+FFFD, which stands for an unpaired surrogate), four for
  a surrogate pair.
\<close>

definition utf8_length :: "jsstring \<Rightarrow> nat" where
  "utf8_length str =
     sum_list (map (\<lambda>cp. case cp of
                            [u] \<Rightarrow> if u < 0x80 then 1 else if u < 0x800 then 2 else 3
                          | _ \<Rightarrow> 4)
                 (spread str))"

text \<open>A text read as a C string ends before its first U+0000.\<close>

definition cstring :: "jsstring \<Rightarrow> jsstring" where
  "cstring str = takeWhile (\<lambda>u. u \<noteq> 0) str"

text \<open>ASCII literals of the source, as code units.\<close>

definition ascii :: "string \<Rightarrow> jsstring" where
  "ascii s = map (\<lambda>c. of_nat (of_char c)) s"

text \<open>\<^verbatim>\<open>str.split(' ')\<close>: the pieces between single spaces, empty pieces kept.\<close>

fun split_space :: "jsstring \<Rightarrow> jsstring list" where
  "split_space [] = [[]]"
| "split_space (c # cs) =
     (if c = 0x20 then [] # split_space cs
      else (case split_space cs of
              w # ws \<Rightarrow> (c # w) # ws
            | [] \<Rightarrow> [[c]]))"

text \<open>\<^verbatim>\<open>v ? v.split(' ') : []\<close> on a nullable text column.\<close>

definition tokens :: "jsstring option \<Rightarrow> jsstring list" where
  "tokens v = (case v of None \<Rightarrow> [] | Some s \<Rightarrow> if s = [] then [] else split_space s)"

section \<open>Serialized payloads\<close>

text \<open>
  The payload columns hold JSON text written by \<^verbatim>\<open>JSON.stringify\<close> and read back by
  \<^verbatim>\<open>parseJson\<close>. Both belong to the platform; the text is represented by the document
  it encodes. \<^verbatim>\<open>JSON.stringify(undefined)\<close> is \<^verbatim>\<open>undefined\<close>, which is stored as NULL.
\<close>

datatype json =
    JNull
  | JBool bool
  | JNum int
  | JStr jsstring
  | JArr "json list"
  | JObj "(jsstring \<times> json) list"

datatype jsontext = JsonText json

definition JSON_stringify :: "json \<Rightarrow> jsontext" where
  "JSON_stringify v = JsonText v"

fun parseJson :: "jsontext \<Rightarrow> json" where
  "parseJson (JsonText v) = v"

section \<open>Schema\<close>

text \<open>One record per table; a nullable column is an option, NULL is \<open>None\<close>.\<close>

record dictionaries_row =
  dict_title :: jsstring
  dict_version :: int
  dict_revision :: "jsstring option"
  dict_sequenced :: "int option"
  dict_author :: "jsstring option"
  dict_url :: "jsstring option"
  dict_description :: "jsstring option"
  dict_attribution :: "jsstring option"
  dict_frequencyMode :: "jsstring option"
  dict_prefixWildcardsSupported :: "int option"
  dict_styles :: "jsstring option"
  dict_counts :: "jsontext option"
  dict_yomitanVersion :: "jsstring option"

record terms_row =
  terms_id :: nat
  terms_dictionary :: jsstring
  terms_expression :: jsstring
  terms_reading :: jsstring
  terms_expressionReverse :: "jsstring option"
  terms_readingReverse :: "jsstring option"
  terms_definitionTags :: "jsstring option"
  terms_rules :: jsstring
  terms_score :: int
  terms_glossary :: jsontext
  terms_sequence :: "int option"
  terms_termTags :: "jsstring option"

record termMeta_row =
  termMeta_id :: nat
  termMeta_dictionary :: jsstring
  termMeta_term :: jsstring
  termMeta_mode :: jsstring
  termMeta_data :: jsontext

record kanji_row =
  kanji_id :: nat
  kanji_dictionary :: jsstring
  kanji_character :: jsstring
  kanji_onyomi :: jsstring
  kanji_kunyomi :: jsstring
  kanji_tags :: jsstring
  kanji_meanings :: jsontext
  kanji_stats :: "jsontext option"

record kanjiMeta_row =
  kanjiMeta_id :: nat
  kanjiMeta_dictionary :: jsstring
  kanjiMeta_character :: jsstring
  kanjiMeta_mode :: jsstring
  kanjiMeta_data :: jsontext

record tagMeta_row =
  tagMeta_id :: nat
  tagMeta_dictionary :: jsstring
  tagMeta_name :: jsstring
  tagMeta_category :: jsstring
  tagMeta_orderValue :: int
  tagMeta_notes :: jsstring
  tagMeta_score :: int

record media_row =
  media_id :: nat
  media_dictionary :: jsstring
  media_path :: jsstring
  media_mediaType :: jsstring
  media_width :: int
  media_height :: int
  media_content :: "8 word list"

text \<open>The contents of the backing store: the rows of each table in insertion order.\<close>

record tables =
  dictionaries :: "dictionaries_row list"
  terms :: "terms_row list"
  termMeta :: "termMeta_row list"
  kanji :: "kanji_row list"
  kanjiMeta :: "kanjiMeta_row list"
  tagMeta :: "tagMeta_row list"
  media :: "media_row list"

definition emptyTables :: tables where
  "emptyTables =
     \<lparr>dictionaries = [], terms = [], termMeta = [], kanji = [], kanjiMeta = [],
      tagMeta = [], media = []\<rparr>"

text \<open>
  \<^verbatim>\<open>INTEGER PRIMARY KEY AUTOINCREMENT\<close>: a new row gets an id one above the largest id
  of the table (rows are never deleted one by one).
\<close>

definition nextId :: "nat list \<Rightarrow> nat" where
  "nextId ids = Suc (foldr max ids 0)"

section \<open>Items, results and errors\<close>

text \<open>
  The shapes of the items handed to \<^verbatim>\<open>bulkAdd\<close> and of the entries the lookups return.
  An optional field (\<^verbatim>\<open>field?:\<close>) or a nullable one is an option. Numbers that are
  counts, positions and row ids are naturals, the other numbers integers.
\<close>

text \<open>
  Modelled from the spec: the declaration of \<^verbatim>\<open>Summary\<close> (types/ext/dictionary-importer) is
  not among the sources; its fields are the ones \<^verbatim>\<open>bulkAdd\<close> reads and
  \<^verbatim>\<open>getDictionaryInfo\<close> builds, optional where the spec's Dictionary entity or the code
  allows the value to be missing.
\<close>

record Summary =
  sum_title :: jsstring
  sum_version :: int
  sum_revision :: "jsstring option"
  sum_sequenced :: bool
  sum_author :: "jsstring option"
  sum_url :: "jsstring option"
  sum_description :: "jsstring option"
  sum_attribution :: "jsstring option"
  sum_frequencyMode :: "jsstring option"
  sum_prefixWildcardsSupported :: bool
  sum_styles :: jsstring
  sum_counts :: "json option"
  sum_yomitanVersion :: "jsstring option"
  sum_importDate :: int

record DatabaseTermEntry =
  dte_expression :: jsstring
  dte_reading :: jsstring
  dte_expressionReverse :: "jsstring option"
  dte_readingReverse :: "jsstring option"
  dte_definitionTags :: "jsstring option"
  dte_tags :: "jsstring option"
  dte_rules :: jsstring
  dte_score :: int
  dte_glossary :: json
  dte_sequence :: "int option"
  dte_termTags :: "jsstring option"
  dte_dictionary :: jsstring

record DatabaseTermMeta =
  dtm_dictionary :: jsstring
  dtm_expression :: jsstring
  dtm_mode :: jsstring
  dtm_data :: json

record DatabaseKanjiEntry =
  dke_character :: jsstring
  dke_onyomi :: jsstring
  dke_kunyomi :: jsstring
  dke_tags :: jsstring
  dke_meanings :: json
  dke_dictionary :: jsstring
  dke_stats :: "json option"

record DatabaseKanjiMeta =
  dkm_dictionary :: jsstring
  dkm_character :: jsstring
  dkm_mode :: jsstring
  dkm_data :: json

record Tag =
  tag_name :: jsstring
  tag_category :: jsstring
  tag_order :: int
  tag_notes :: jsstring
  tag_score :: int
  tag_dictionary :: jsstring

record MediaData =
  md_dictionary :: jsstring
  md_path :: jsstring
  md_mediaType :: jsstring
  md_width :: int
  md_height :: int
  md_content :: "8 word list"

text \<open>
  \<^verbatim>\<open>bulkAdd<T>(objectStoreName: T, items: ObjectStoreData<T>[], ...)\<close>: the store name
  fixes the type of the items, so a call is one of seven typed lists.
\<close>

datatype ObjectStoreName =
  Dictionaries | Terms | TermMeta | Kanji | KanjiMeta | TagMeta | Media

datatype ObjectStoreData =
    DictionariesData "Summary list"
  | TermsData "DatabaseTermEntry list"
  | TermMetaData "DatabaseTermMeta list"
  | KanjiData "DatabaseKanjiEntry list"
  | KanjiMetaData "DatabaseKanjiMeta list"
  | TagMetaData "Tag list"
  | MediaItems "MediaData list"

fun objectStoreName :: "ObjectStoreData \<Rightarrow> ObjectStoreName" where
  "objectStoreName (DictionariesData _) = Dictionaries"
| "objectStoreName (TermsData _) = Terms"
| "objectStoreName (TermMetaData _) = TermMeta"
| "objectStoreName (KanjiData _) = Kanji"
| "objectStoreName (KanjiMetaData _) = KanjiMeta"
| "objectStoreName (TagMetaData _) = TagMeta"
| "objectStoreName (MediaItems _) = Media"

fun items_length :: "ObjectStoreData \<Rightarrow> nat" where
  "items_length (DictionariesData items) = length items"
| "items_length (TermsData items) = length items"
| "items_length (TermMetaData items) = length items"
| "items_length (KanjiData items) = length items"
| "items_length (KanjiMetaData items) = length items"
| "items_length (TagMetaData items) = length items"
| "items_length (MediaItems items) = length items"

text \<open>
  Modelled from the spec: \<^verbatim>\<open>MatchType\<close> is imported from types/ext/dictionary-database,
  which is not among the sources; the spec and the engine's earlier copy list four values.
\<close>

datatype MatchType = Exact | Prefix | Suffix | Anywhere

datatype MatchSource = TermSource | ReadingSource

record TermEntry =
  te_index :: nat
  te_matchType :: MatchType
  te_matchSource :: MatchSource
  te_term :: jsstring
  te_reading :: jsstring
  te_definitionTags :: "jsstring list"
  te_termTags :: "jsstring list"
  te_rules :: "jsstring list"
  te_definitions :: json
  te_score :: int
  te_dictionary :: jsstring
  te_id :: nat
  te_sequence :: int






text \<open>
  Every \<^verbatim>\<open>throw\<close> of the source is a value: the four errors the classes raise
  themselves, the TypeError of iterating \<^verbatim>\<open>undefined\<close>, the constraint violation of
  an insert that repeats a primary key, a file-system error with its errno code, an
  error raised by the database driver with its message, and the RangeError of the libsql
  client for an integer that a JavaScript number does not hold exactly.
\<close>

datatype error =
    AlreadyOpen
  | AlreadyOpening
  | NotOpen
  | CannotPurgeWhileOpening
  | TypeError
  | ConstraintPrimaryKey
  | FsError string
  | DriverError string
  | RangeError

section \<open>The database file\<close>

text \<open>
  The backing store is an SQLite file. In the sections on the engine a table is the list
  of the rows of values that the engine has handed to \<^verbatim>\<open>insert\<close>, in insertion order,
  and a query returns these rows as they are. What the file keeps of a text and what a
  driver returns of a text or a large integer differs from the value that was written;
  this section gives SQLite's LIKE, and for the terms table, which the lookups match by
  text, the row that the file keeps and the row that a query returns.
\<close>

subsection \<open>LIKE\<close>

text \<open>
  The queries are built with drizzle's \<^verbatim>\<open>eq\<close> and \<^verbatim>\<open>like\<close>. \<^verbatim>\<open>eq\<close> is equality of
  the two texts. \<^verbatim>\<open>like(column, pattern)\<close> is SQLite's LIKE without an ESCAPE clause.
  SQLite compares character by character (a character is a code point): \<^verbatim>\<open>%\<close> in the
  pattern stands for any run of characters, \<^verbatim>\<open>_\<close> for any one character, any other
  character for itself, where the ASCII letters match without regard to case
  (\<^verbatim>\<open>patternCompare\<close> in SQLite's func.c).
\<close>

definition like_lower :: "jsstring \<Rightarrow> jsstring" where
  "like_lower cp =
     (case cp of
        [u] \<Rightarrow> if 0x41 \<le> u \<and> u \<le> 0x5A then [u + 0x20] else [u]
      | _ \<Rightarrow> cp)"

fun patternCompare :: "jsstring list \<Rightarrow> jsstring list \<Rightarrow> bool" where
  "patternCompare [] [] = True"
| "patternCompare [] (c # cs) = False"
| "patternCompare (p # ps) [] = (p = [0x25] \<and> patternCompare ps [])"
| "patternCompare (p # ps) (c # cs) =
     (if p = [0x25] then patternCompare ps (c # cs) \<or> patternCompare (p # ps) cs
      else (p = [0x5F] \<or> like_lower p = like_lower c) \<and> patternCompare ps cs)"

text \<open>
  SQLite reads both operands as C strings: the pattern and the text each end before
  their first U+0000.
\<close>

definition like_match :: "jsstring \<Rightarrow> jsstring \<Rightarrow> bool" where
  "like_match pattern str = patternCompare (spread (cstring pattern)) (spread (cstring str))"

text \<open>
  The SQL function behind \<^verbatim>\<open>column LIKE pattern\<close> (\<^verbatim>\<open>likeFunc\<close> in func.c): a pattern
  of more than 50000 bytes (SQLITE_MAX_LIKE_PATTERN_LENGTH) is an error, whatever the
  column holds; a NULL column matches nothing.
\<close>

definition sql_like :: "jsstring option \<Rightarrow> jsstring \<Rightarrow> error + bool" where
  "sql_like column pattern =
     (if 50000 < utf8_length pattern
      then Inl (DriverError ''LIKE or GLOB pattern too complex'')
      else Inr (case column of None \<Rightarrow> False | Some s \<Rightarrow> like_match pattern s))"

text \<open>
  \<^verbatim>\<open>select().from(t).where(c)\<close>: the condition is evaluated on every row of the table
  in turn; an error of the condition ends the query.
\<close>

fun select_where :: "('r \<Rightarrow> error + bool) \<Rightarrow> 'r list \<Rightarrow> error + 'r list" where
  "select_where c [] = Inr []"
| "select_where c (row # rows) =
     (case c row of
        Inl err \<Rightarrow> Inl err
      | Inr b \<Rightarrow>
          (case select_where c rows of
             Inl err \<Rightarrow> Inl err
           | Inr rows' \<Rightarrow> Inr (if b then row # rows' else rows')))"

subsection \<open>The terms table\<close>

text \<open>
  Both drivers hand a string to SQLite as UTF-8, with its length: the file keeps a text
  in full, with every unpaired surrogate replaced by U+FFFD. A stored text is given as
  the string that its bytes decode to. The glossary column holds the output of
  \<^verbatim>\<open>JSON.stringify\<close>, in which unpaired surrogates and U+0000 are escaped, and is kept
  as it is; so are the numbers.
\<close>

definition storedTerm :: "terms_row \<Rightarrow> terms_row" where
  "storedTerm v =
     v\<lparr>terms_dictionary := toWellFormed (terms_dictionary v),
       terms_expression := toWellFormed (terms_expression v),
       terms_reading := toWellFormed (terms_reading v),
       terms_expressionReverse := map_option toWellFormed (terms_expressionReverse v),
       terms_readingReverse := map_option toWellFormed (terms_readingReverse v),
       terms_definitionTags := map_option toWellFormed (terms_definitionTags v),
       terms_rules := toWellFormed (terms_rules v),
       terms_termTags := map_option toWellFormed (terms_termTags v)\<rparr>"

text \<open>The rows of the terms table in the file, after the inserts that \<open>store\<close> lists.\<close>

definition storedTerms :: "tables \<Rightarrow> terms_row list" where
  "storedTerms store = map storedTerm (terms store)"

text \<open>
  The libsql client (\<^verbatim>\<open>@libsql/client\<close>, which the current engine uses) returns a text
  column as a C string, which ends before the first U+0000 of the stored text, and
  throws a RangeError for an integer column whose value is not a safe integer
  (\<^verbatim>\<open>Number.isSafeInteger\<close>). better-sqlite3, which the engine's earlier copy uses,
  returns a text column in full and an integer column as a number.
\<close>

definition isSafeInteger :: "int \<Rightarrow> bool" where
  "isSafeInteger n = (- (2 ^ 53) < n \<and> n < 2 ^ 53)"

definition returnedTerm :: "terms_row \<Rightarrow> error + terms_row" where
  "returnedTerm row =
     (if isSafeInteger (int (terms_id row)) \<and> isSafeInteger (terms_score row)
         \<and> (case terms_sequence row of None \<Rightarrow> True | Some n \<Rightarrow> isSafeInteger n)
      then Inr (row\<lparr>terms_dictionary := cstring (terms_dictionary row),
                   terms_expression := cstring (terms_expression row),
                   terms_reading := cstring (terms_reading row),
                   terms_expressionReverse := map_option cstring (terms_expressionReverse row),
                   terms_readingReverse := map_option cstring (terms_readingReverse row),
                   terms_definitionTags := map_option cstring (terms_definitionTags row),
                   terms_rules := cstring (terms_rules row),
                   terms_termTags := map_option cstring (terms_termTags row)\<rparr>)
      else Inl RangeError)"

text \<open>The rows of a query as the libsql client returns them: every row is converted.\<close>

fun returnedTerms :: "terms_row list \<Rightarrow> error + terms_row list" where
  "returnedTerms [] = Inr []"
| "returnedTerms (row # rows) =
     (case returnedTerm row of
        Inl err \<Rightarrow> Inl err
      | Inr row' \<Rightarrow>
          (case returnedTerms rows of
             Inl err \<Rightarrow> Inl err
           | Inr rows' \<Rightarrow> Inr (row' # rows')))"

section \<open>Connection manager (SQLiteDatabase)\<close>

text \<open>
  What the calls into the platform do is given by the environment: for each call that can
  throw, \<open>None\<close> when it returns and \<open>Some\<close> of the errno code or message when it throws.
  \<^verbatim>\<open>client.close()\<close> is taken to return.
\<close>

record env =
  env_dirname :: "jsstring \<Rightarrow> jsstring"
  env_mkdir :: "string option"
  env_connect :: "string option"
  env_drizzle :: "string option"
  env_createTables :: "string option"
  env_createIndices :: "string option"
  env_unlink :: "string option"

datatype handle = Handle jsstring

text \<open>
  \<open>sq_client\<close> is \<^verbatim>\<open>_client\<close> (\<^verbatim>\<open>_db\<close> in the better-sqlite3 variant), \<open>sq_drizzle\<close> is
  \<^verbatim>\<open>_drizzle\<close>, \<open>sq_isOpening\<close> is \<^verbatim>\<open>_isOpening\<close>, \<open>sq_dbPath\<close> is \<^verbatim>\<open>_dbPath\<close>.
\<close>

record SQLiteDatabase =
  sq_client :: "handle option"
  sq_drizzle :: "handle option"
  sq_isOpening :: bool
  sq_dbPath :: jsstring

definition new_SQLiteDatabase :: SQLiteDatabase where
  "new_SQLiteDatabase =
     \<lparr>sq_client = None, sq_drizzle = None, sq_isOpening = False, sq_dbPath = []\<rparr>"

text \<open>The \<^verbatim>\<open>try\<close> block of \<^verbatim>\<open>open\<close>, libsql variant.\<close>

definition open_try :: "env \<Rightarrow> jsstring \<Rightarrow> SQLiteDatabase \<Rightarrow> (error + unit) \<times> SQLiteDatabase" where
  "open_try e databaseName this =
     (let this1 = this\<lparr>sq_isOpening := True\<rparr> in
      case env_connect e of
        Some m \<Rightarrow> (Inl (DriverError m), this1)
      | None \<Rightarrow>
          (let this2 = this1\<lparr>sq_client := Some (Handle databaseName)\<rparr> in
           case env_drizzle e of
             Some m \<Rightarrow> (Inl (DriverError m), this2)
           | None \<Rightarrow> (Inr (), this2\<lparr>sq_drizzle := Some (Handle databaseName)\<rparr>)))"

text \<open>\<^verbatim>\<open>open\<close>: the two guards, then the \<^verbatim>\<open>try\<close> block with its \<^verbatim>\<open>finally\<close>.\<close>

definition open_libsql :: "env \<Rightarrow> jsstring \<Rightarrow> SQLiteDatabase \<Rightarrow> (error + unit) \<times> SQLiteDatabase" where
  "open_libsql e databaseName this =
     (if sq_client this \<noteq> None then (Inl AlreadyOpen, this)
      else if sq_isOpening this then (Inl AlreadyOpening, this)
      else (case open_try e databaseName this of
              (r, this') \<Rightarrow> (r, this'\<lparr>sq_isOpening := False\<rparr>)))"

text \<open>The \<^verbatim>\<open>try\<close> block of \<^verbatim>\<open>open\<close>, better-sqlite3 variant.\<close>

definition open_try_sqlite3 :: "env \<Rightarrow> jsstring \<Rightarrow> SQLiteDatabase \<Rightarrow> (error + unit) \<times> SQLiteDatabase" where
  "open_try_sqlite3 e databaseName this =
     (let this1 = this\<lparr>sq_isOpening := True, sq_dbPath := databaseName\<rparr>;
          dbDir = env_dirname e databaseName;
          mkdir = (if dbDir \<noteq> ascii ''.'' then env_mkdir e else None) in
      case mkdir of
        Some c \<Rightarrow> (Inl (FsError c), this1)
      | None \<Rightarrow>
          (case env_connect e of
             Some m \<Rightarrow> (Inl (DriverError m), this1)
           | None \<Rightarrow>
               (let this2 = this1\<lparr>sq_client := Some (Handle databaseName)\<rparr> in
                case env_drizzle e of
                  Some m \<Rightarrow> (Inl (DriverError m), this2)
                | None \<Rightarrow>
                    (let this3 = this2\<lparr>sq_drizzle := Some (Handle databaseName)\<rparr> in
                     case env_createTables e of
                       Some m \<Rightarrow> (Inl (DriverError m), this3)
                     | None \<Rightarrow>
                         (case env_createIndices e of
                            Some m \<Rightarrow> (Inl (DriverError m), this3)
                          | None \<Rightarrow> (Inr (), this3))))))"

definition open_sqlite3 :: "env \<Rightarrow> jsstring \<Rightarrow> SQLiteDatabase \<Rightarrow> (error + unit) \<times> SQLiteDatabase" where
  "open_sqlite3 e databaseName this =
     (if sq_client this \<noteq> None then (Inl AlreadyOpen, this)
      else if sq_isOpening this then (Inl AlreadyOpening, this)
      else (case open_try_sqlite3 e databaseName this of
              (r, this') \<Rightarrow> (r, this'\<lparr>sq_isOpening := False\<rparr>)))"

definition close_db :: "SQLiteDatabase \<Rightarrow> SQLiteDatabase" where
  "close_db this =
     (if sq_client this \<noteq> None then this\<lparr>sq_client := None, sq_drizzle := None\<rparr> else this)"

definition isOpening :: "SQLiteDatabase \<Rightarrow> bool" where
  "isOpening this = sq_isOpening this"

definition getDb :: "SQLiteDatabase \<Rightarrow> error + handle" where
  "getDb this = (case sq_drizzle this of None \<Rightarrow> Inl NotOpen | Some d \<Rightarrow> Inr d)"

text \<open>
  The file system is the list of the paths at which a file exists. \<^verbatim>\<open>fs.rm(path)\<close>
  (\<^verbatim>\<open>fs.unlink(path)\<close> in the better-sqlite3 variant) throws the error that the
  environment gives when the platform refuses the removal; otherwise it removes the file
  at \<open>path\<close>, and throws ENOENT when there is no file at \<open>path\<close>. A string is a path as
  it stands, also when it has the form of a URL.
\<close>

type_synonym files = "jsstring list"

definition rm :: "env \<Rightarrow> jsstring \<Rightarrow> files \<Rightarrow> (error + unit) \<times> files" where
  "rm e path fs =
     (case env_unlink e of
        Some code \<Rightarrow> (Inl (FsError code), fs)
      | None \<Rightarrow>
          if path \<in> set fs then (Inr (), removeAll path fs)
          else (Inl (FsError ''ENOENT''), fs))"

text \<open>\<^verbatim>\<open>deleteDatabase(databaseName)\<close>: the removal, with ENOENT caught.\<close>

definition deleteDatabase :: "env \<Rightarrow> jsstring \<Rightarrow> files \<Rightarrow> (error + unit) \<times> files" where
  "deleteDatabase e databaseName fs =
     (case rm e databaseName fs of
        (Inl err, fs') \<Rightarrow>
          (case err of
             FsError code \<Rightarrow> if code \<noteq> ''ENOENT'' then (Inl err, fs') else (Inr (), fs')
           | _ \<Rightarrow> (Inl err, fs'))
      | (Inr u, fs') \<Rightarrow> (Inr (), fs'))"

text \<open>
  \<^verbatim>\<open>createClient({url})\<close> of the libsql variant: for a URL \<^verbatim>\<open>file:path\<close> the database
  is the file at \<open>path\<close>.
\<close>

definition databaseFile :: "jsstring \<Rightarrow> jsstring" where
  "databaseFile url = (if prefix (ascii ''file:'') url then drop 5 url else url)"

section \<open>Storage engine (DictionaryDatabase): lifecycle\<close>

record DictionaryDatabase =
  dd_db :: SQLiteDatabase
  dd_isOpen :: bool

definition new_DictionaryDatabase :: DictionaryDatabase where
  "new_DictionaryDatabase = \<lparr>dd_db = new_SQLiteDatabase, dd_isOpen = False\<rparr>"

definition dbName :: jsstring where
  "dbName = ascii ''file:dict.sqlite''"

definition prepare :: "env \<Rightarrow> DictionaryDatabase \<Rightarrow> (error + unit) \<times> DictionaryDatabase" where
  "prepare e this =
     (case open_libsql e dbName (dd_db this) of
        (Inl err, db') \<Rightarrow> (Inl err, this\<lparr>dd_db := db'\<rparr>)
      | (Inr _, db') \<Rightarrow> (Inr (), this\<lparr>dd_db := db', dd_isOpen := True\<rparr>))"

definition close_engine :: "DictionaryDatabase \<Rightarrow> DictionaryDatabase" where
  "close_engine this = this\<lparr>dd_db := close_db (dd_db this), dd_isOpen := False\<rparr>"

definition isPrepared :: "DictionaryDatabase \<Rightarrow> bool" where
  "isPrepared this = dd_isOpen this"

text \<open>
  \<^verbatim>\<open>purge\<close> takes the file system and returns it with its outcome and the engine.
  \<^verbatim>\<open>deleteDatabase\<close> is handed \<^verbatim>\<open>this._dbName\<close>, the same string that \<^verbatim>\<open>prepare\<close> hands
  to \<^verbatim>\<open>open\<close>.
\<close>

definition purge ::
  "env \<Rightarrow> DictionaryDatabase \<Rightarrow> files \<Rightarrow> (error + bool) \<times> DictionaryDatabase \<times> files" where
  "purge e this fs =
     (if isOpening (dd_db this) then (Inl CannotPurgeWhileOpening, this, fs)
      else
        (let this1 = (if dd_isOpen this
                      then this\<lparr>dd_db := close_db (dd_db this), dd_isOpen := False\<rparr>
                      else this);
             deleted = deleteDatabase e dbName fs;
             result = (case fst deleted of Inr _ \<Rightarrow> True | Inl _ \<Rightarrow> False) in
         case prepare e this1 of
           (Inl err, this2) \<Rightarrow> (Inl err, this2, snd deleted)
         | (Inr _, this2) \<Rightarrow> (Inr result, this2, snd deleted)))"

section \<open>Storage engine: lookups\<close>

text \<open>
  A lookup takes the engine \<open>this\<close> (for \<^verbatim>\<open>this._db.getDb()\<close>), the contents \<open>store\<close> of
  the backing store, its inputs and the Dictionary-Set, of which only \<^verbatim>\<open>has\<close> is used.
  A \<^verbatim>\<open>select().from(t).where(c)\<close> yields the rows of \<open>t\<close> that satisfy \<open>c\<close>, in
  insertion order; \<^verbatim>\<open>results.push(x)\<close> appends. The rows are the values as they were
  written, and a row satisfies a LIKE condition when the condition evaluates to true.
  \<^verbatim>\<open>findTermsBulk\<close> is given a second time below, over the terms table as the file
  keeps it and the libsql client returns it.
\<close>

text \<open>The entry that the loop builds from a row \<^verbatim>\<open>row\<close> of the query's result.\<close>

definition termEntry :: "nat \<Rightarrow> MatchType \<Rightarrow> terms_row \<Rightarrow> TermEntry" where
  "termEntry i matchType row =
     \<lparr>te_index = i,
      te_matchType = matchType,
      te_matchSource = TermSource,
      te_term = terms_expression row,
      te_reading = terms_reading row,
      te_definitionTags = tokens (terms_definitionTags row),
      te_termTags = tokens (terms_termTags row),
      te_rules = tokens (Some (terms_rules row)),
      te_definitions = parseJson (terms_glossary row),
      te_score = terms_score row,
      te_dictionary = terms_dictionary row,
      te_id = terms_id row,
      te_sequence = (case terms_sequence row of None \<Rightarrow> 0 | Some n \<Rightarrow> n)\<rparr>"

text \<open>The inner loop \<^verbatim>\<open>for (const row of rows) if (dictionaries.has(row.dictionary)) ...\<close>\<close>

definition pushTermRows ::
  "(jsstring \<Rightarrow> bool) \<Rightarrow> nat \<Rightarrow> MatchType \<Rightarrow> terms_row list \<Rightarrow> TermEntry list \<Rightarrow> TermEntry list" where
  "pushTermRows has i matchType rows results =
     foldl (\<lambda>res row. if has (terms_dictionary row) then res @ [termEntry i matchType row] else res)
       results rows"

text \<open>
  The \<^verbatim>\<open>switch (matchType)\<close> of \<^verbatim>\<open>findTermsBulk\<close>: it has the cases exact, prefix and
  suffix and no default, so for any other value \<^verbatim>\<open>query\<close> stays \<^verbatim>\<open>undefined\<close>
  (\<open>None\<close>).
\<close>

definition termsQuery :: "tables \<Rightarrow> MatchType \<Rightarrow> jsstring \<Rightarrow> terms_row list option" where
  "termsQuery store matchType term =
     (case matchType of
        Exact \<Rightarrow> Some (filter (\<lambda>row. terms_expression row = term) (terms store))
      | Prefix \<Rightarrow>
          Some (filter (\<lambda>row. sql_like (Some (terms_expression row)) (term @ ascii ''%'')
                                 = Inr True)
                  (terms store))
      | Suffix \<Rightarrow>
          Some (filter (\<lambda>row. sql_like (terms_expressionReverse row)
                                 (reverseString term @ ascii ''%'') = Inr True)
                  (terms store))
      | Anywhere \<Rightarrow> None)"

text \<open>
  The loop over \<^verbatim>\<open>termList\<close>, \<open>i\<close> being the position of the head of the remaining
  list. Iterating the \<^verbatim>\<open>undefined\<close> rows throws a TypeError.
\<close>

fun findTermsBulk_loop ::
  "tables \<Rightarrow> (jsstring \<Rightarrow> bool) \<Rightarrow> MatchType \<Rightarrow> nat \<Rightarrow> jsstring list \<Rightarrow> TermEntry list
   \<Rightarrow> error + TermEntry list" where
  "findTermsBulk_loop store has matchType i [] results = Inr results"
| "findTermsBulk_loop store has matchType i (term # rest) results =
     (case termsQuery store matchType term of
        None \<Rightarrow> Inl TypeError
      | Some rows \<Rightarrow>
          findTermsBulk_loop store has matchType (Suc i) rest
            (pushTermRows has i matchType rows results))"

definition findTermsBulk ::
  "DictionaryDatabase \<Rightarrow> tables \<Rightarrow> jsstring list \<Rightarrow> (jsstring \<Rightarrow> bool) \<Rightarrow> MatchType
   \<Rightarrow> error + TermEntry list" where
  "findTermsBulk this store termList has matchType =
     (if length termList = 0 then Inr []
      else (case getDb (dd_db this) of
              Inl err \<Rightarrow> Inl err
            | Inr db \<Rightarrow> findTermsBulk_loop store has matchType 0 termList []))"

text \<open>
  \<^verbatim>\<open>findTermsBulk\<close> over the database file. The parameter of a query reaches SQLite as
  UTF-8 like a value of an insert; the query selects from the rows that the file keeps,
  and the libsql client returns the rows it selects. \<^verbatim>\<open>await query\<close> throws what the
  query throws.
\<close>

definition termsQuery_libsql ::
  "tables \<Rightarrow> MatchType \<Rightarrow> jsstring \<Rightarrow> (error + terms_row list) option" where
  "termsQuery_libsql store matchType term =
     (case matchType of
        Exact \<Rightarrow>
          Some (returnedTerms
                  (filter (\<lambda>row. terms_expression row = toWellFormed term) (storedTerms store)))
      | Prefix \<Rightarrow>
          Some (case select_where
                       (\<lambda>row. sql_like (Some (terms_expression row))
                                 (toWellFormed (term @ ascii ''%'')))
                       (storedTerms store) of
                  Inl err \<Rightarrow> Inl err
                | Inr rows \<Rightarrow> returnedTerms rows)
      | Suffix \<Rightarrow>
          Some (case select_where
                       (\<lambda>row. sql_like (terms_expressionReverse row)
                                 (toWellFormed (reverseString term @ ascii ''%'')))
                       (storedTerms store) of
                  Inl err \<Rightarrow> Inl err
                | Inr rows \<Rightarrow> returnedTerms rows)
      | Anywhere \<Rightarrow> None)"

fun findTermsBulk_libsql_loop ::
  "tables \<Rightarrow> (jsstring \<Rightarrow> bool) \<Rightarrow> MatchType \<Rightarrow> nat \<Rightarrow> jsstring list \<Rightarrow> TermEntry list
   \<Rightarrow> error + TermEntry list" where
  "findTermsBulk_libsql_loop store has matchType i [] results = Inr results"
| "findTermsBulk_libsql_loop store has matchType i (term # rest) results =
     (case termsQuery_libsql store matchType term of
        None \<Rightarrow> Inl TypeError
      | Some (Inl err) \<Rightarrow> Inl err
      | Some (Inr rows) \<Rightarrow>
          findTermsBulk_libsql_loop store has matchType (Suc i) rest
            (pushTermRows has i matchType rows results))"

definition findTermsBulk_libsql ::
  "DictionaryDatabase \<Rightarrow> tables \<Rightarrow> jsstring list \<Rightarrow> (jsstring \<Rightarrow> bool) \<Rightarrow> MatchType
   \<Rightarrow> error + TermEntry list" where
  "findTermsBulk_libsql this store termList has matchType =
     (if length termList = 0 then Inr []
      else (case getDb (dd_db this) of
              Inl err \<Rightarrow> Inl err
            | Inr db \<Rightarrow> findTermsBulk_libsql_loop store has matchType 0 termList []))"


















definition tagOfRow :: "tagMeta_row \<Rightarrow> Tag" where
  "tagOfRow row =
     \<lparr>tag_name = tagMeta_name row,
      tag_category = tagMeta_category row,
      tag_order = tagMeta_orderValue row,
      tag_notes = tagMeta_notes row,
      tag_score = tagMeta_score row,
      tag_dictionary = tagMeta_dictionary row\<rparr>"

fun findTagMetaBulk_loop :: "tables \<Rightarrow> (jsstring \<times> jsstring) list \<Rightarrow> Tag list \<Rightarrow> Tag list" where
  "findTagMetaBulk_loop store [] results = results"
| "findTagMetaBulk_loop store ((name, dictionary) # rest) results =
     (let rows = filter (\<lambda>row. tagMeta_name row = name \<and> tagMeta_dictionary row = dictionary)
                   (tagMeta store)
      in findTagMetaBulk_loop store rest (foldl (\<lambda>res row. res @ [tagOfRow row]) results rows))"

definition findTagMetaBulk ::
  "DictionaryDatabase \<Rightarrow> tables \<Rightarrow> (jsstring \<times> jsstring) list \<Rightarrow> error + Tag list" where
  "findTagMetaBulk this store tagList =
     (if length tagList = 0 then Inr []
      else (case getDb (dd_db this) of
              Inl err \<Rightarrow> Inl err
            | Inr db \<Rightarrow> Inr (findTagMetaBulk_loop store tagList [])))"

definition findTagForTitle :: "DictionaryDatabase \<Rightarrow> tables \<Rightarrow> jsstring \<Rightarrow> error + Tag list" where
  "findTagForTitle this store title =
     (case getDb (dd_db this) of
        Inl err \<Rightarrow> Inl err
      | Inr db \<Rightarrow>
          Inr (map tagOfRow
                 (filter (\<lambda>row. sql_like (Some (tagMeta_name row)) title = Inr True)
                    (tagMeta store))))"

section \<open>Storage engine: inspection\<close>

text \<open>
  \<^verbatim>\<open>getDictionaryInfo\<close>; \<open>now\<close> is the value of \<^verbatim>\<open>Date.now()\<close>. \<^verbatim>\<open>Boolean(n)\<close> is
  false for NULL and 0; \<^verbatim>\<open>a ?? b\<close> replaces NULL, \<^verbatim>\<open>a || b\<close> replaces NULL and the
  empty string.
\<close>

definition summaryOfRow :: "int \<Rightarrow> dictionaries_row \<Rightarrow> Summary" where
  "summaryOfRow now row =
     \<lparr>sum_title = dict_title row,
      sum_version = dict_version row,
      sum_revision = Some (case dict_revision row of None \<Rightarrow> [] | Some r \<Rightarrow> r),
      sum_sequenced = (case dict_sequenced row of None \<Rightarrow> False | Some n \<Rightarrow> n \<noteq> 0),
      sum_author = dict_author row,
      sum_url = dict_url row,
      sum_description = dict_description row,
      sum_attribution = dict_attribution row,
      sum_frequencyMode = dict_frequencyMode row,
      sum_prefixWildcardsSupported = (dict_prefixWildcardsSupported row = Some 1),
      sum_styles = (case dict_styles row of None \<Rightarrow> [] | Some s \<Rightarrow> if s = [] then [] else s),
      sum_counts = (case dict_counts row of None \<Rightarrow> None | Some t \<Rightarrow> Some (parseJson t)),
      sum_yomitanVersion = dict_yomitanVersion row,
      sum_importDate = now\<rparr>"






definition dictionaryExists :: "DictionaryDatabase \<Rightarrow> tables \<Rightarrow> jsstring \<Rightarrow> error + bool" where
  "dictionaryExists this store title =
     (case getDb (dd_db this) of
        Inl err \<Rightarrow> Inl err
      | Inr db \<Rightarrow> Inr (length (filter (\<lambda>row. dict_title row = title) (dictionaries store)) > 0))"

section \<open>Storage engine: mutation\<close>

text \<open>
  \<^verbatim>\<open>items.slice(start, end)\<close>: a negative bound counts from the end of the array, both
  bounds are clamped to the array, and the slice is empty when the end is not after the
  start.
\<close>

definition slice :: "'a list \<Rightarrow> int \<Rightarrow> int \<Rightarrow> 'a list" where
  "slice xs start stop =
     (let len = int (length xs);
          k = (if start < 0 then max (len + start) 0 else min start len);
          final = (if stop < 0 then max (len + stop) 0 else min stop len)
      in take (nat (final - k)) (drop (nat k) xs))"

text \<open>\<^verbatim>\<open>end = Math.min(start + count, items.length); itemsToAdd = items.slice(start, end)\<close>\<close>

definition itemsToAdd :: "'a list \<Rightarrow> int \<Rightarrow> int \<Rightarrow> 'a list" where
  "itemsToAdd items start count = slice items start (min (start + count) (int (length items)))"

text \<open>
  The values of one insert per store. A column that the insert does not name, or names
  with \<^verbatim>\<open>undefined\<close>, is NULL. \<open>title\<close> is the primary key of the dictionaries table:
  an insert that repeats a stored title throws.
\<close>

definition dictionaryRow :: "Summary \<Rightarrow> dictionaries_row" where
  "dictionaryRow item =
     \<lparr>dict_title = sum_title item,
      dict_version = sum_version item,
      dict_revision = sum_revision item,
      dict_sequenced = Some (if sum_sequenced item then 1 else 0),
      dict_author = sum_author item,
      dict_url = sum_url item,
      dict_description = sum_description item,
      dict_attribution = sum_attribution item,
      dict_frequencyMode = sum_frequencyMode item,
      dict_prefixWildcardsSupported = Some (if sum_prefixWildcardsSupported item then 1 else 0),
      dict_styles = Some (sum_styles item),
      dict_counts = map_option JSON_stringify (sum_counts item),
      dict_yomitanVersion = None\<rparr>"

definition insertDictionary :: "Summary \<Rightarrow> tables \<Rightarrow> error + tables" where
  "insertDictionary item store =
     (if sum_title item \<in> set (map dict_title (dictionaries store)) then Inl ConstraintPrimaryKey
      else Inr (store\<lparr>dictionaries := dictionaries store @ [dictionaryRow item]\<rparr>))"

text \<open>
  \<^verbatim>\<open>for (const item of typedItems) await db.insert(...)\<close>: an insert that throws ends the
  call, the rows inserted before it stay.
\<close>

fun insertDictionaries :: "Summary list \<Rightarrow> tables \<Rightarrow> (error + unit) \<times> tables" where
  "insertDictionaries [] store = (Inr (), store)"
| "insertDictionaries (item # rest) store =
     (case insertDictionary item store of
        Inl err \<Rightarrow> (Inl err, store)
      | Inr store' \<Rightarrow> insertDictionaries rest store')"

definition termRow :: "nat \<Rightarrow> DatabaseTermEntry \<Rightarrow> terms_row" where
  "termRow rowid item =
     (let expressionReverse =
            (if dte_expression item \<noteq> [] then Some (reverseString (dte_expression item))
             else None);
          readingReverse =
            (if dte_reading item \<noteq> [] then Some (reverseString (dte_reading item))
             else None)
      in \<lparr>terms_id = rowid,
          terms_dictionary = dte_dictionary item,
          terms_expression = dte_expression item,
          terms_reading = dte_reading item,
          terms_expressionReverse = expressionReverse,
          terms_readingReverse = readingReverse,
          terms_definitionTags =
            (case dte_definitionTags item of
               None \<Rightarrow> dte_tags item
             | Some s \<Rightarrow> if s \<noteq> [] then Some s else dte_tags item),
          terms_rules = dte_rules item,
          terms_score = dte_score item,
          terms_glossary = JSON_stringify (dte_glossary item),
          terms_sequence = dte_sequence item,
          terms_termTags = dte_termTags item\<rparr>)"

definition insertTerm :: "tables \<Rightarrow> DatabaseTermEntry \<Rightarrow> tables" where
  "insertTerm store item =
     store\<lparr>terms := terms store @ [termRow (nextId (map terms_id (terms store))) item]\<rparr>"

definition termMetaRow :: "nat \<Rightarrow> DatabaseTermMeta \<Rightarrow> termMeta_row" where
  "termMetaRow rowid item =
     \<lparr>termMeta_id = rowid,
      termMeta_dictionary = dtm_dictionary item,
      termMeta_term = dtm_expression item,
      termMeta_mode = dtm_mode item,
      termMeta_data = JSON_stringify (dtm_data item)\<rparr>"

definition insertTermMeta :: "tables \<Rightarrow> DatabaseTermMeta \<Rightarrow> tables" where
  "insertTermMeta store item =
     store\<lparr>termMeta :=
       termMeta store @ [termMetaRow (nextId (map termMeta_id (termMeta store))) item]\<rparr>"

definition kanjiRow :: "nat \<Rightarrow> DatabaseKanjiEntry \<Rightarrow> kanji_row" where
  "kanjiRow rowid item =
     \<lparr>kanji_id = rowid,
      kanji_dictionary = dke_dictionary item,
      kanji_character = dke_character item,
      kanji_onyomi = dke_onyomi item,
      kanji_kunyomi = dke_kunyomi item,
      kanji_tags = dke_tags item,
      kanji_meanings = JSON_stringify (dke_meanings item),
      kanji_stats = (case dke_stats item of None \<Rightarrow> None | Some v \<Rightarrow> Some (JSON_stringify v))\<rparr>"

definition insertKanji :: "tables \<Rightarrow> DatabaseKanjiEntry \<Rightarrow> tables" where
  "insertKanji store item =
     store\<lparr>kanji := kanji store @ [kanjiRow (nextId (map kanji_id (kanji store))) item]\<rparr>"

definition kanjiMetaRow :: "nat \<Rightarrow> DatabaseKanjiMeta \<Rightarrow> kanjiMeta_row" where
  "kanjiMetaRow rowid item =
     \<lparr>kanjiMeta_id = rowid,
      kanjiMeta_dictionary = dkm_dictionary item,
      kanjiMeta_character = dkm_character item,
      kanjiMeta_mode = dkm_mode item,
      kanjiMeta_data = JSON_stringify (dkm_data item)\<rparr>"

definition insertKanjiMeta :: "tables \<Rightarrow> DatabaseKanjiMeta \<Rightarrow> tables" where
  "insertKanjiMeta store item =
     store\<lparr>kanjiMeta :=
       kanjiMeta store @ [kanjiMetaRow (nextId (map kanjiMeta_id (kanjiMeta store))) item]\<rparr>"

definition tagMetaRow :: "nat \<Rightarrow> Tag \<Rightarrow> tagMeta_row" where
  "tagMetaRow rowid item =
     \<lparr>tagMeta_id = rowid,
      tagMeta_dictionary = tag_dictionary item,
      tagMeta_name = tag_name item,
      tagMeta_category = tag_category item,
      tagMeta_orderValue = tag_order item,
      tagMeta_notes = tag_notes item,
      tagMeta_score = tag_score item\<rparr>"

definition insertTagMeta :: "tables \<Rightarrow> Tag \<Rightarrow> tables" where
  "insertTagMeta store item =
     store\<lparr>tagMeta :=
       tagMeta store @ [tagMetaRow (nextId (map tagMeta_id (tagMeta store))) item]\<rparr>"

definition mediaRow :: "nat \<Rightarrow> MediaData \<Rightarrow> media_row" where
  "mediaRow rowid item =
     \<lparr>media_id = rowid,
      media_dictionary = md_dictionary item,
      media_path = md_path item,
      media_mediaType = md_mediaType item,
      media_width = md_width item,
      media_height = md_height item,
      media_content = md_content item\<rparr>"

definition insertMedia :: "tables \<Rightarrow> MediaData \<Rightarrow> tables" where
  "insertMedia store item =
     store\<lparr>media := media store @ [mediaRow (nextId (map media_id (media store))) item]\<rparr>"

text \<open>\<^verbatim>\<open>bulkAdd\<close> returns nothing; the model returns the outcome and the new contents.\<close>

definition bulkAdd ::
  "DictionaryDatabase \<Rightarrow> tables \<Rightarrow> ObjectStoreData \<Rightarrow> int \<Rightarrow> int \<Rightarrow> (error + unit) \<times> tables" where
  "bulkAdd this store items start count =
     (if items_length items = 0 \<or> count \<le> 0 then (Inr (), store)
      else
        (case getDb (dd_db this) of
           Inl err \<Rightarrow> (Inl err, store)
         | Inr db \<Rightarrow>
             (case items of
                DictionariesData typedItems \<Rightarrow>
                  insertDictionaries (itemsToAdd typedItems start count) store
              | TermsData typedItems \<Rightarrow>
                  (Inr (), foldl insertTerm store (itemsToAdd typedItems start count))
              | TermMetaData typedItems \<Rightarrow>
                  (Inr (), foldl insertTermMeta store (itemsToAdd typedItems start count))
              | KanjiData typedItems \<Rightarrow>
                  (Inr (), foldl insertKanji store (itemsToAdd typedItems start count))
              | KanjiMetaData typedItems \<Rightarrow>
                  (Inr (), foldl insertKanjiMeta store (itemsToAdd typedItems start count))
              | TagMetaData typedItems \<Rightarrow>
                  (Inr (), foldl insertTagMeta store (itemsToAdd typedItems start count))
              | MediaItems typedItems \<Rightarrow>
                  (Inr (), foldl insertMedia store (itemsToAdd typedItems start count)))))"

section \<open>Notions used in the statements\<close>

text \<open>The engine as \<^verbatim>\<open>purge\<close> hands it to \<^verbatim>\<open>prepare\<close>: closed if it was open.\<close>

definition closeIfOpen :: "DictionaryDatabase \<Rightarrow> DictionaryDatabase" where
  "closeIfOpen this = (if dd_isOpen this then close_engine this else this)"

text \<open>
  The result of a bulk lookup as a list: for the input at position \<open>j\<close> the entries
  \<open>g j k\<close>, one position after the other.
\<close>

definition matches :: "(nat \<Rightarrow> 'k \<Rightarrow> 'e list) \<Rightarrow> nat \<Rightarrow> 'k list \<Rightarrow> 'e list" where
  "matches g i ks = concat (map (\<lambda>(j, k). g j k) (enumerate i ks))"


text \<open>
  The sub-slice in the words of the spec: the items at the positions
  \<open>[start, min(start+count, items.length))\<close>, in order.
\<close>

definition subSlice :: "'a list \<Rightarrow> int \<Rightarrow> int \<Rightarrow> 'a list" where
  "subSlice items start count
     = map ((!) items) [nat start..<min (nat (start + count)) (length items)]"

text \<open>
  What the code keeps true of a terms row: each reversed column is the reversal of its
  column, and NULL where the column is the empty string.
\<close>

definition reversedColumns :: "terms_row \<Rightarrow> bool" where
  "reversedColumns row =
     (terms_expressionReverse row
        = (if terms_expression row = [] then None
           else Some (reverseString (terms_expression row)))
      \<and> terms_readingReverse row
        = (if terms_reading row = [] then None else Some (reverseString (terms_reading row))))"

text \<open>
  The values that the file keeps and the libsql client returns as they were written: a
  text that is well formed and has no U+0000, a safe integer, and a row of such values.
\<close>

definition plainText :: "jsstring \<Rightarrow> bool" where
  "plainText str = (wellFormed str \<and> 0 \<notin> set str)"

definition plainTerm :: "terms_row \<Rightarrow> bool" where
  "plainTerm row =
     (plainText (terms_dictionary row) \<and> plainText (terms_expression row)
      \<and> plainText (terms_reading row)
      \<and> (case terms_expressionReverse row of None \<Rightarrow> True | Some s \<Rightarrow> plainText s)
      \<and> (case terms_readingReverse row of None \<Rightarrow> True | Some s \<Rightarrow> plainText s)
      \<and> (case terms_definitionTags row of None \<Rightarrow> True | Some s \<Rightarrow> plainText s)
      \<and> plainText (terms_rules row)
      \<and> (case terms_termTags row of None \<Rightarrow> True | Some s \<Rightarrow> plainText s)
      \<and> isSafeInteger (int (terms_id row)) \<and> isSafeInteger (terms_score row)
      \<and> (case terms_sequence row of None \<Rightarrow> True | Some n \<Rightarrow> isSafeInteger n))"

text \<open>An item of plain values.\<close>

definition plainItem :: "DatabaseTermEntry \<Rightarrow> bool" where
  "plainItem item =
     (plainText (dte_dictionary item) \<and> plainText (dte_expression item)
      \<and> plainText (dte_reading item)
      \<and> (case dte_definitionTags item of None \<Rightarrow> True | Some s \<Rightarrow> plainText s)
      \<and> (case dte_tags item of None \<Rightarrow> True | Some s \<Rightarrow> plainText s)
      \<and> plainText (dte_rules item)
      \<and> (case dte_termTags item of None \<Rightarrow> True | Some s \<Rightarrow> plainText s)
      \<and> isSafeInteger (dte_score item)
      \<and> (case dte_sequence item of None \<Rightarrow> True | Some n \<Rightarrow> isSafeInteger n))"



section \<open>Example data\<close>

text \<open>An environment in which every call returns, and one in which opening fails.\<close>

definition okEnv :: env where
  "okEnv =
     \<lparr>env_dirname = (\<lambda>p. ascii ''.''), env_mkdir = None, env_connect = None,
      env_drizzle = None, env_createTables = None, env_createIndices = None,
      env_unlink = None\<rparr>"

definition failingEnv :: env where
  "failingEnv =
     \<lparr>env_dirname = (\<lambda>p. ascii ''data''), env_mkdir = Some ''EACCES'',
      env_connect = Some ''SQLITE_CANTOPEN'', env_drizzle = None, env_createTables = None,
      env_createIndices = None, env_unlink = None\<rparr>"

text \<open>An engine after a successful \<^verbatim>\<open>prepare\<close>, and one whose connection is mid-open.\<close>

definition preparedEngine :: DictionaryDatabase where
  "preparedEngine =
     \<lparr>dd_db = \<lparr>sq_client = Some (Handle dbName), sq_drizzle = Some (Handle dbName),
               sq_isOpening = False, sq_dbPath = []\<rparr>,
      dd_isOpen = True\<rparr>"

definition openingEngine :: DictionaryDatabase where
  "openingEngine = \<lparr>dd_db = new_SQLiteDatabase\<lparr>sq_isOpening := True\<rparr>, dd_isOpen = False\<rparr>"

text \<open>
  The engine after a \<^verbatim>\<open>prepare\<close> in which \<^verbatim>\<open>createClient\<close> returned and \<^verbatim>\<open>drizzle\<close>
  threw: the client is set, the engine is not flagged open.
\<close>

definition halfOpenEngine :: DictionaryDatabase where
  "halfOpenEngine =
     snd (prepare (okEnv\<lparr>env_drizzle := Some ''drizzle''\<rparr>) new_DictionaryDatabase)"


text \<open>
  The expression U+65E5 U+672C U+8A9E, and terms with it: under the dictionaries A, B
  and D, with an empty expression and reading, and with reversed columns of its own.
\<close>

definition nihongo :: jsstring where
  "nihongo = [0x65E5, 0x672C, 0x8A9E]"

definition termA :: DatabaseTermEntry where
  "termA =
     \<lparr>dte_expression = nihongo, dte_reading = [0x306B, 0x307B, 0x3093, 0x3054],
      dte_expressionReverse = None, dte_readingReverse = None,
      dte_definitionTags = Some (ascii ''n''), dte_tags = None, dte_rules = [],
      dte_score = 0, dte_glossary = JArr [JStr (ascii ''Japanese language'')],
      dte_sequence = None, dte_termTags = None, dte_dictionary = ascii ''A''\<rparr>"

definition termB :: DatabaseTermEntry where
  "termB = termA\<lparr>dte_dictionary := ascii ''B''\<rparr>"


definition termEmpty :: DatabaseTermEntry where
  "termEmpty = termA\<lparr>dte_expression := [], dte_reading := []\<rparr>"

definition termStale :: DatabaseTermEntry where
  "termStale =
     termA\<lparr>dte_expressionReverse := Some (ascii ''stale''),
           dte_readingReverse := Some (ascii ''stale'')\<rparr>"

text \<open>Two kanji of dictionary D, and a store that holds them in the other order.\<close>

definition kanjiNichi :: DatabaseKanjiEntry where
  "kanjiNichi =
     \<lparr>dke_character = [0x65E5], dke_onyomi = ascii ''nichi jitsu'', dke_kunyomi = ascii ''hi'',
      dke_tags = [], dke_meanings = JArr [JStr (ascii ''day'')], dke_dictionary = ascii ''D'',
      dke_stats = None\<rparr>"

definition kanjiGo :: DatabaseKanjiEntry where
  "kanjiGo =
     \<lparr>dke_character = [0x8A9E], dke_onyomi = ascii ''go'', dke_kunyomi = ascii ''kataru'',
      dke_tags = [], dke_meanings = JArr [JStr (ascii ''word'')], dke_dictionary = ascii ''D'',
      dke_stats = None\<rparr>"





text \<open>The store after inserting the terms \<open>ts\<close> into an empty store.\<close>

definition storeOf :: "DatabaseTermEntry list \<Rightarrow> tables" where
  "storeOf ts = snd (bulkAdd preparedEngine emptyTables (TermsData ts) 0 (int (length ts)))"


definition termSplit :: DatabaseTermEntry where
  "termSplit = termA\<lparr>dte_expression := [0xDFB7, 0xD842], dte_reading := [0xDFB7, 0xD842]\<rparr>"







section \<open>Properties of the connection manager\<close>

lemma open_libsql_isOpening:
  "sq_isOpening (snd (open_libsql e n this)) =
     ((sq_client this \<noteq> None \<or> sq_isOpening this) \<and> sq_isOpening this)"
  by (simp add: open_libsql_def split: prod.splits)

lemma open_sqlite3_isOpening:
  "sq_isOpening (snd (open_sqlite3 e n this)) =
     ((sq_client this \<noteq> None \<or> sq_isOpening this) \<and> sq_isOpening this)"
  by (simp add: open_sqlite3_def split: prod.splits)

lemma open_libsql_guard:
  "sq_client this \<noteq> None \<or> sq_isOpening this \<Longrightarrow>
   fst (open_libsql e n this) = Inl AlreadyOpen \<or> fst (open_libsql e n this) = Inl AlreadyOpening"
  by (auto simp add: open_libsql_def)

lemma open_sqlite3_guard:
  "sq_client this \<noteq> None \<or> sq_isOpening this \<Longrightarrow>
   fst (open_sqlite3 e n this) = Inl AlreadyOpen \<or> fst (open_sqlite3 e n this) = Inl AlreadyOpening"
  by (auto simp add: open_sqlite3_def)

lemma open_libsql_AlreadyOpening:
  "fst (open_libsql e n this) = Inl AlreadyOpening \<Longrightarrow> sq_isOpening this"
  unfolding open_libsql_def
  by (simp add: open_try_def Let_def split: if_splits option.splits)

lemma open_sqlite3_AlreadyOpening:
  "fst (open_sqlite3 e n this) = Inl AlreadyOpening \<Longrightarrow> sq_isOpening this"
  unfolding open_sqlite3_def
  by (simp add: open_try_sqlite3_def Let_def split: if_splits option.splits)

lemma open_libsql_failing:
  "open_libsql failingEnv dbName new_SQLiteDatabase =
     (Inl (DriverError ''SQLITE_CANTOPEN''), new_SQLiteDatabase)"
  by (simp add: open_libsql_def open_try_def failingEnv_def new_SQLiteDatabase_def)

lemma open_sqlite3_failing:
  "open_sqlite3 failingEnv dbName new_SQLiteDatabase =
     (Inl (FsError ''EACCES''), new_SQLiteDatabase\<lparr>sq_dbPath := dbName\<rparr>)"
  by (simp add: open_sqlite3_def open_try_sqlite3_def failingEnv_def new_SQLiteDatabase_def
      ascii_def)

text \<open>
  C10. Whenever \<^verbatim>\<open>open(name)\<close> completes other than by its AlreadyOpen or AlreadyOpening
  guard, with success or with an error thrown while creating the directory, connecting or
  creating the tables, \<^verbatim>\<open>isOpening()\<close> is false afterwards, and the next \<^verbatim>\<open>open\<close>
  is not rejected with AlreadyOpening. This holds for the libsql and for the better-sqlite3
  variant of the connection manager, from every state and in every environment.
\<close>

theorem open_leaves_not_opening:
  "(fst (open_libsql e n this) \<noteq> Inl AlreadyOpen
      \<and> fst (open_libsql e n this) \<noteq> Inl AlreadyOpening
      \<longrightarrow> \<not> isOpening (snd (open_libsql e n this))
          \<and> fst (open_libsql e' n' (snd (open_libsql e n this))) \<noteq> Inl AlreadyOpening)
   \<and> (fst (open_sqlite3 e n this) \<noteq> Inl AlreadyOpen
      \<and> fst (open_sqlite3 e n this) \<noteq> Inl AlreadyOpening
      \<longrightarrow> \<not> isOpening (snd (open_sqlite3 e n this))
          \<and> fst (open_sqlite3 e' n' (snd (open_sqlite3 e n this))) \<noteq> Inl AlreadyOpening)"
proof (intro conjI impI)
  assume a: "fst (open_libsql e n this) \<noteq> Inl AlreadyOpen
             \<and> fst (open_libsql e n this) \<noteq> Inl AlreadyOpening"
  then have g: "\<not> (sq_client this \<noteq> None \<or> sq_isOpening this)"
    using open_libsql_guard [of this e n] by blast
  then show c: "\<not> isOpening (snd (open_libsql e n this))"
    by (simp add: isOpening_def open_libsql_isOpening)
  show "fst (open_libsql e' n' (snd (open_libsql e n this))) \<noteq> Inl AlreadyOpening"
    using c open_libsql_AlreadyOpening [of e' n' "snd (open_libsql e n this)"]
    by (auto simp: isOpening_def)
next
  assume a: "fst (open_sqlite3 e n this) \<noteq> Inl AlreadyOpen
             \<and> fst (open_sqlite3 e n this) \<noteq> Inl AlreadyOpening"
  then have g: "\<not> (sq_client this \<noteq> None \<or> sq_isOpening this)"
    using open_sqlite3_guard [of this e n] by blast
  then show c: "\<not> isOpening (snd (open_sqlite3 e n this))"
    by (simp add: isOpening_def open_sqlite3_isOpening)
  show "fst (open_sqlite3 e' n' (snd (open_sqlite3 e n this))) \<noteq> Inl AlreadyOpening"
    using c open_sqlite3_AlreadyOpening [of e' n' "snd (open_sqlite3 e n this)"]
    by (auto simp: isOpening_def)
qed

text \<open>
  At a fresh connection manager in an environment where connecting (libsql) and creating
  the directory (better-sqlite3) fail: the call throws, the flag is down, and a second
  call is not turned away as AlreadyOpening.
\<close>

theorem open_leaves_not_opening_witness:
  "fst (open_libsql failingEnv dbName new_SQLiteDatabase) = Inl (DriverError ''SQLITE_CANTOPEN'')
   \<and> \<not> isOpening (snd (open_libsql failingEnv dbName new_SQLiteDatabase))
   \<and> fst (open_libsql failingEnv dbName (snd (open_libsql failingEnv dbName new_SQLiteDatabase)))
       \<noteq> Inl AlreadyOpening
   \<and> fst (open_sqlite3 failingEnv dbName new_SQLiteDatabase) = Inl (FsError ''EACCES'')
   \<and> \<not> isOpening (snd (open_sqlite3 failingEnv dbName new_SQLiteDatabase))
   \<and> fst (open_sqlite3 failingEnv dbName (snd (open_sqlite3 failingEnv dbName new_SQLiteDatabase)))
       \<noteq> Inl AlreadyOpening"
  using open_leaves_not_opening [of failingEnv dbName new_SQLiteDatabase failingEnv dbName]
  by (simp add: open_libsql_failing open_sqlite3_failing)

section \<open>Properties of the lifecycle\<close>

lemma open_libsql_errors:
  "fst (open_libsql e n this) = Inl err \<Longrightarrow>
     err = AlreadyOpen \<or> err = AlreadyOpening \<or> (\<exists>m. err = DriverError m)"
  unfolding open_libsql_def
  by (auto simp add: open_try_def Let_def split: if_splits option.splits)

lemma open_libsql_ok:
  "sq_client this = None \<Longrightarrow> \<not> sq_isOpening this \<Longrightarrow> env_connect e = None \<Longrightarrow>
   env_drizzle e = None \<Longrightarrow>
   open_libsql e n this =
     (Inr (), this\<lparr>sq_client := Some (Handle n), sq_drizzle := Some (Handle n),
                  sq_isOpening := False\<rparr>)"
  by (simp add: open_libsql_def open_try_def Let_def)

lemma prepare_errors:
  "fst (prepare e this) = Inl err \<Longrightarrow>
     err = AlreadyOpen \<or> err = AlreadyOpening \<or> (\<exists>m. err = DriverError m)"
  using open_libsql_errors [of e dbName "dd_db this" err]
  by (auto simp: prepare_def split: prod.splits sum.splits)

lemma prepare_ok:
  "sq_client (dd_db this) = None \<Longrightarrow> \<not> sq_isOpening (dd_db this) \<Longrightarrow> env_connect e = None \<Longrightarrow>
   env_drizzle e = None \<Longrightarrow>
   fst (prepare e this) = Inr () \<and> dd_isOpen (snd (prepare e this))
   \<and> sq_drizzle (dd_db (snd (prepare e this))) \<noteq> None"
  by (simp add: prepare_def open_libsql_ok)

lemma purge_opening:
  "isOpening (dd_db this) \<Longrightarrow> purge e this fs = (Inl CannotPurgeWhileOpening, this, fs)"
  by (simp add: purge_def)

lemma purge_not_opening:
  "\<not> isOpening (dd_db this) \<Longrightarrow>
   purge e this fs =
     (case prepare e (closeIfOpen this) of
        (Inl err, this2) \<Rightarrow> (Inl err, this2, snd (deleteDatabase e dbName fs))
      | (Inr u, this2) \<Rightarrow>
          (Inr (fst (deleteDatabase e dbName fs) = Inr ()), this2,
           snd (deleteDatabase e dbName fs)))"
  by (cases "fst (deleteDatabase e dbName fs)")
     (simp_all add: purge_def Let_def close_engine_def closeIfOpen_def
        split: prod.splits sum.splits)

lemma purge_engine:
  "\<not> isOpening (dd_db this) \<Longrightarrow>
   fst (snd (purge e this fs)) = snd (prepare e (closeIfOpen this))"
  by (simp add: purge_not_opening split: prod.splits sum.splits)

lemma purge_files:
  "\<not> isOpening (dd_db this) \<Longrightarrow>
   snd (snd (purge e this fs)) = snd (deleteDatabase e dbName fs)"
  by (simp add: purge_not_opening split: prod.splits sum.splits)

lemma purge_fst_err:
  "\<not> isOpening (dd_db this) \<Longrightarrow> fst (purge e this fs) = Inl err \<Longrightarrow>
   fst (prepare e (closeIfOpen this)) = Inl err"
  by (simp add: purge_not_opening split: prod.splits sum.splits)

lemma purge_fst_ok:
  "\<not> isOpening (dd_db this) \<Longrightarrow> fst (prepare e (closeIfOpen this)) = Inr () \<Longrightarrow>
   fst (purge e this fs) = Inr (fst (deleteDatabase e dbName fs) = Inr ())"
  by (cases "prepare e (closeIfOpen this)") (auto simp add: purge_not_opening split: sum.splits)

lemma purge_fst_fail:
  "\<not> isOpening (dd_db this) \<Longrightarrow> fst (prepare e (closeIfOpen this)) = Inl err \<Longrightarrow>
   fst (purge e this fs) = Inl err"
  by (cases "prepare e (closeIfOpen this)") (auto simp add: purge_not_opening split: sum.splits)

lemma close_isOpening: "sq_isOpening (close_db d) = sq_isOpening d"
  by (simp add: close_db_def)

lemma close_client: "sq_client (close_db d) = None"
  by (simp add: close_db_def)

lemma closeIfOpen_closed: "\<not> dd_isOpen (closeIfOpen this)"
  by (simp add: closeIfOpen_def close_engine_def)

lemma closeIfOpen_client:
  "sq_client (dd_db (closeIfOpen this)) = None \<longleftrightarrow> dd_isOpen this \<or> sq_client (dd_db this) = None"
  by (simp add: closeIfOpen_def close_engine_def close_client)

lemma closeIfOpen_isOpening:
  "sq_isOpening (dd_db (closeIfOpen this)) = sq_isOpening (dd_db this)"
  by (simp add: closeIfOpen_def close_engine_def close_isOpening)

lemma open_libsql_succeeds:
  "fst (open_libsql e n this) = Inr ()
     \<longleftrightarrow> sq_client this = None \<and> \<not> sq_isOpening this \<and> env_connect e = None
         \<and> env_drizzle e = None"
  unfolding open_libsql_def
  by (auto simp add: open_try_def Let_def split: if_splits option.splits)

lemma prepare_succeeds:
  "fst (prepare e this) = Inr ()
     \<longleftrightarrow> sq_client (dd_db this) = None \<and> \<not> sq_isOpening (dd_db this) \<and> env_connect e = None
         \<and> env_drizzle e = None"
  using open_libsql_succeeds [of e dbName "dd_db this"]
  by (auto simp: prepare_def split: prod.splits sum.splits)

lemma prepare_prepared:
  "fst (prepare e this) = Inr () \<Longrightarrow>
   dd_isOpen (snd (prepare e this))
   \<and> getDb (dd_db (snd (prepare e this))) = Inr (Handle dbName)"
proof -
  assume a: "fst (prepare e this) = Inr ()"
  then have h: "sq_client (dd_db this) = None" "\<not> sq_isOpening (dd_db this)"
    "env_connect e = None" "env_drizzle e = None"
    by (simp_all add: prepare_succeeds)
  show ?thesis
    by (simp add: prepare_def open_libsql_ok [OF h] getDb_def)
qed

lemma prepare_unprepared:
  "fst (prepare e this) = Inl err \<Longrightarrow> dd_isOpen (snd (prepare e this)) = dd_isOpen this"
  by (auto simp: prepare_def split: prod.splits sum.splits)

lemma deleteDatabase_ok:
  "(fst (deleteDatabase e n fs) = Inr ()) = (env_unlink e = None \<or> env_unlink e = Some ''ENOENT'')"
  by (simp add: deleteDatabase_def rm_def split: option.splits)

lemma deleteDatabase_files:
  "snd (deleteDatabase e n fs) = (if env_unlink e = None then removeAll n fs else fs)"
  by (simp add: deleteDatabase_def rm_def split: option.splits)

text \<open>
  C9, as amended. \<^verbatim>\<open>purge()\<close> fails with CannotPurgeWhileOpening exactly when the
  connection is mid-open, and then changes nothing. Otherwise it calls \<^verbatim>\<open>deleteDatabase\<close>
  and ends in the state that \<^verbatim>\<open>prepare()\<close> reaches from the engine closed if it was
  open, so \<^verbatim>\<open>prepare()\<close> is always re-run; it never throws a file-system error, so a
  failed deletion is not propagated. When that \<^verbatim>\<open>prepare()\<close> succeeds, the engine is
  prepared, its connection is open, and the value returned is whether the deletion
  succeeded; when it throws, \<^verbatim>\<open>purge()\<close> throws the same error and the engine is not
  prepared. That \<^verbatim>\<open>prepare()\<close> succeeds exactly when connecting succeeds and the
  connection was closed or is closed by \<^verbatim>\<open>purge()\<close>. Deleting succeeds when the removal
  returned and when it threw ENOENT.
\<close>

theorem purge_contract:
  "(fst (purge e this fs) = Inl CannotPurgeWhileOpening \<longleftrightarrow> isOpening (dd_db this))
   \<and> (isOpening (dd_db this) \<longrightarrow> purge e this fs = (Inl CannotPurgeWhileOpening, this, fs))
   \<and> (\<not> isOpening (dd_db this) \<longrightarrow>
        fst (snd (purge e this fs)) = snd (prepare e (closeIfOpen this))
        \<and> snd (snd (purge e this fs)) = snd (deleteDatabase e dbName fs)
        \<and> (\<forall>code. fst (purge e this fs) \<noteq> Inl (FsError code))
        \<and> (fst (prepare e (closeIfOpen this)) = Inr () \<longrightarrow>
             fst (purge e this fs) = Inr (fst (deleteDatabase e dbName fs) = Inr ())
             \<and> isPrepared (fst (snd (purge e this fs)))
             \<and> getDb (dd_db (fst (snd (purge e this fs)))) = Inr (Handle dbName))
        \<and> (\<forall>err. fst (prepare e (closeIfOpen this)) = Inl err \<longrightarrow>
             fst (purge e this fs) = Inl err
             \<and> \<not> isPrepared (fst (snd (purge e this fs))))
        \<and> (fst (prepare e (closeIfOpen this)) = Inr ()
             \<longleftrightarrow> env_connect e = None \<and> env_drizzle e = None
                 \<and> (dd_isOpen this \<or> sq_client (dd_db this) = None)))
   \<and> (fst (deleteDatabase e dbName fs) = Inr ()
        \<longleftrightarrow> env_unlink e = None \<or> env_unlink e = Some ''ENOENT'')"
proof (intro conjI impI allI)
  show "(fst (purge e this fs) = Inl CannotPurgeWhileOpening) = isOpening (dd_db this)"
  proof (cases "isOpening (dd_db this)")
    case True
    then show ?thesis by (simp add: purge_opening)
  next
    case False
    have "fst (purge e this fs) \<noteq> Inl CannotPurgeWhileOpening"
    proof
      assume "fst (purge e this fs) = Inl CannotPurgeWhileOpening"
      then have "fst (prepare e (closeIfOpen this)) = Inl CannotPurgeWhileOpening"
        using False by (rule purge_fst_err [rotated])
      then show False using prepare_errors by blast
    qed
    then show ?thesis using False by simp
  qed
next
  assume "isOpening (dd_db this)"
  then show "purge e this fs = (Inl CannotPurgeWhileOpening, this, fs)"
    by (rule purge_opening)
next
  assume n: "\<not> isOpening (dd_db this)"
  show "fst (snd (purge e this fs)) = snd (prepare e (closeIfOpen this))"
    using n by (rule purge_engine)
next
  assume n: "\<not> isOpening (dd_db this)"
  show "snd (snd (purge e this fs)) = snd (deleteDatabase e dbName fs)"
    using n by (rule purge_files)
next
  fix code
  assume n: "\<not> isOpening (dd_db this)"
  show "fst (purge e this fs) \<noteq> Inl (FsError code)"
  proof
    assume "fst (purge e this fs) = Inl (FsError code)"
    then have "fst (prepare e (closeIfOpen this)) = Inl (FsError code)"
      using n by (rule purge_fst_err [rotated])
    then show False using prepare_errors by blast
  qed
next
  assume n: "\<not> isOpening (dd_db this)"
    and p: "fst (prepare e (closeIfOpen this)) = Inr ()"
  show "fst (purge e this fs) = Inr (fst (deleteDatabase e dbName fs) = Inr ())"
    using n p by (rule purge_fst_ok)
next
  assume n: "\<not> isOpening (dd_db this)"
    and p: "fst (prepare e (closeIfOpen this)) = Inr ()"
  show "isPrepared (fst (snd (purge e this fs)))"
    using prepare_prepared [OF p] n by (simp add: purge_engine isPrepared_def)
next
  assume n: "\<not> isOpening (dd_db this)"
    and p: "fst (prepare e (closeIfOpen this)) = Inr ()"
  show "getDb (dd_db (fst (snd (purge e this fs)))) = Inr (Handle dbName)"
    using prepare_prepared [OF p] n by (simp add: purge_engine)
next
  fix err
  assume n: "\<not> isOpening (dd_db this)"
    and p: "fst (prepare e (closeIfOpen this)) = Inl err"
  show "fst (purge e this fs) = Inl err"
    using n p by (rule purge_fst_fail)
next
  fix err
  assume n: "\<not> isOpening (dd_db this)"
    and p: "fst (prepare e (closeIfOpen this)) = Inl err"
  show "\<not> isPrepared (fst (snd (purge e this fs)))"
    using prepare_unprepared [OF p] n
    by (simp add: purge_engine isPrepared_def closeIfOpen_closed)
next
  assume n: "\<not> isOpening (dd_db this)"
  show "(fst (prepare e (closeIfOpen this)) = Inr ())
        = (env_connect e = None \<and> env_drizzle e = None
           \<and> (dd_isOpen this \<or> sq_client (dd_db this) = None))"
    using n
    by (auto simp add: prepare_succeeds closeIfOpen_client closeIfOpen_isOpening isOpening_def)
next
  show "(fst (deleteDatabase e dbName fs) = Inr ())
        = (env_unlink e = None \<or> env_unlink e = Some ''ENOENT'')"
    by (rule deleteDatabase_ok)
qed

lemma okEnv_fields:
  "env_connect (okEnv\<lparr>env_unlink := u\<rparr>) = None"
  "env_drizzle (okEnv\<lparr>env_unlink := u\<rparr>) = None"
  "env_unlink (okEnv\<lparr>env_unlink := u\<rparr>) = u"
  "env_connect okEnv = None" "env_drizzle okEnv = None" "env_unlink okEnv = None"
  by (simp_all add: okEnv_def)

lemma preparedEngine_state:
  "\<not> isOpening (dd_db preparedEngine)" "dd_isOpen preparedEngine"
  by (simp_all add: isOpening_def preparedEngine_def)

text \<open>
  On a prepared engine: a removal refused with EACCES gives \<open>false\<close> and a prepared
  engine, a missing file and a removed file give \<open>true\<close>; on an engine that is mid-open
  the call fails and leaves the engine and the files as they were.
\<close>

theorem purge_contract_witness:
  "fst (purge (okEnv\<lparr>env_unlink := Some ''EACCES''\<rparr>) preparedEngine [dbName]) = Inr False
   \<and> isPrepared (fst (snd (purge (okEnv\<lparr>env_unlink := Some ''EACCES''\<rparr>) preparedEngine [dbName])))
   \<and> snd (snd (purge (okEnv\<lparr>env_unlink := Some ''EACCES''\<rparr>) preparedEngine [dbName])) = [dbName]
   \<and> fst (purge okEnv preparedEngine []) = Inr True
   \<and> fst (purge okEnv preparedEngine [dbName]) = Inr True
   \<and> snd (snd (purge okEnv preparedEngine [dbName])) = []
   \<and> getDb (dd_db (fst (snd (purge okEnv preparedEngine [dbName])))) = Inr (Handle dbName)
   \<and> purge okEnv openingEngine [dbName] = (Inl CannotPurgeWhileOpening, openingEngine, [dbName])"
proof -
  note a = preparedEngine_state
  have b: "isOpening (dd_db openingEngine)"
    by (simp add: isOpening_def openingEngine_def new_SQLiteDatabase_def)
  note c = okEnv_fields
  have d: "deleteDatabase (okEnv\<lparr>env_unlink := Some ''EACCES''\<rparr>) dbName [dbName]
             = (Inl (FsError ''EACCES''), [dbName])"
          "deleteDatabase okEnv dbName [] = (Inr (), [])"
          "deleteDatabase okEnv dbName [dbName] = (Inr (), [])"
    by (simp_all add: deleteDatabase_def rm_def c)
  have p: "fst (prepare (okEnv\<lparr>env_unlink := u\<rparr>) (closeIfOpen preparedEngine)) = Inr ()"
          "fst (prepare okEnv (closeIfOpen preparedEngine)) = Inr ()" for u
    using purge_contract [of "okEnv\<lparr>env_unlink := u\<rparr>" preparedEngine "[]"]
      purge_contract [of okEnv preparedEngine "[]"] a c
    by blast+
  have 1: "fst (purge (okEnv\<lparr>env_unlink := Some ''EACCES''\<rparr>) preparedEngine [dbName])
             = Inr (fst (deleteDatabase (okEnv\<lparr>env_unlink := Some ''EACCES''\<rparr>) dbName [dbName])
                      = Inr ())
           \<and> isPrepared
               (fst (snd (purge (okEnv\<lparr>env_unlink := Some ''EACCES''\<rparr>) preparedEngine [dbName])))
           \<and> snd (snd (purge (okEnv\<lparr>env_unlink := Some ''EACCES''\<rparr>) preparedEngine [dbName]))
               = snd (deleteDatabase (okEnv\<lparr>env_unlink := Some ''EACCES''\<rparr>) dbName [dbName])"
    using purge_contract [of "okEnv\<lparr>env_unlink := Some ''EACCES''\<rparr>" preparedEngine "[dbName]"]
      a p
    by blast
  have 2: "fst (purge okEnv preparedEngine []) = Inr (fst (deleteDatabase okEnv dbName []) = Inr ())"
    using purge_contract [of okEnv preparedEngine "[]"] a p by blast
  have 3: "fst (purge okEnv preparedEngine [dbName])
             = Inr (fst (deleteDatabase okEnv dbName [dbName]) = Inr ())
           \<and> snd (snd (purge okEnv preparedEngine [dbName]))
               = snd (deleteDatabase okEnv dbName [dbName])
           \<and> getDb (dd_db (fst (snd (purge okEnv preparedEngine [dbName])))) = Inr (Handle dbName)"
    using purge_contract [of okEnv preparedEngine "[dbName]"] a p by blast
  have 4: "purge okEnv openingEngine [dbName] = (Inl CannotPurgeWhileOpening, openingEngine, [dbName])"
    using purge_contract [of okEnv openingEngine "[dbName]"] b by blast
  show ?thesis
    using 1 2 3 4 by (simp add: d)
qed

text \<open>
  The file that \<^verbatim>\<open>purge\<close> removes is the one at the path \<^verbatim>\<open>file:dict.sqlite\<close>, which is
  the string it hands to \<^verbatim>\<open>deleteDatabase\<close>; the database that \<^verbatim>\<open>prepare\<close> opens with
  the same string is the file \<^verbatim>\<open>dict.sqlite\<close>, and \<^verbatim>\<open>purge\<close> leaves it where it is.
\<close>

lemma databaseFile_dbName: "databaseFile dbName = ascii ''dict.sqlite''"
  by (simp add: databaseFile_def dbName_def ascii_def)

lemma purge_keeps_database_file:
  "databaseFile dbName \<in> set fs \<Longrightarrow> databaseFile dbName \<in> set (snd (snd (purge e this fs)))"
proof (cases "isOpening (dd_db this)")
  case True
  assume "databaseFile dbName \<in> set fs"
  then show ?thesis using True by (simp add: purge_opening)
next
  case False
  have "databaseFile dbName \<noteq> dbName"
    by (simp add: databaseFile_dbName) (simp add: dbName_def ascii_def)
  moreover assume "databaseFile dbName \<in> set fs"
  ultimately show ?thesis
    using False by (simp add: purge_files deleteDatabase_files)
qed

text \<open>
  The claim as stated fails in two ways. When connecting fails after the deletion,
  \<^verbatim>\<open>purge()\<close> throws and the engine, which was prepared, is not prepared any more; the
  same happens when the connection is open although the engine is not flagged open, where
  \<^verbatim>\<open>prepare()\<close> throws AlreadyOpen. And with the database in the file \<^verbatim>\<open>dict.sqlite\<close>,
  \<^verbatim>\<open>purge()\<close> returns \<open>true\<close> and the file is still there.
\<close>

theorem purge_unprepared_counterexample:
  "isPrepared preparedEngine
   \<and> fst (purge failingEnv preparedEngine [ascii ''dict.sqlite''])
       = Inl (DriverError ''SQLITE_CANTOPEN'')
   \<and> \<not> isPrepared (fst (snd (purge failingEnv preparedEngine [ascii ''dict.sqlite''])))
   \<and> \<not> isOpening (dd_db halfOpenEngine)
   \<and> fst (purge okEnv halfOpenEngine [ascii ''dict.sqlite'']) = Inl AlreadyOpen
   \<and> \<not> isPrepared (fst (snd (purge okEnv halfOpenEngine [ascii ''dict.sqlite''])))
   \<and> databaseFile dbName = ascii ''dict.sqlite''
   \<and> fst (purge okEnv preparedEngine [ascii ''dict.sqlite'']) = Inr True
   \<and> snd (snd (purge okEnv preparedEngine [ascii ''dict.sqlite''])) = [ascii ''dict.sqlite'']"
proof -
  have n: "ascii ''dict.sqlite'' \<noteq> dbName"
    by (simp add: dbName_def ascii_def)
  have 1: "purge failingEnv preparedEngine [ascii ''dict.sqlite'']
           = (Inl (DriverError ''SQLITE_CANTOPEN''),
              \<lparr>dd_db = \<lparr>sq_client = None, sq_drizzle = None, sq_isOpening = False,
                        sq_dbPath = []\<rparr>, dd_isOpen = False\<rparr>,
              [ascii ''dict.sqlite''])"
    using n
    by (simp add: purge_def isOpening_def preparedEngine_def close_db_def prepare_def
        open_libsql_def open_try_def failingEnv_def deleteDatabase_def rm_def)
  have h: "halfOpenEngine
           = \<lparr>dd_db = \<lparr>sq_client = Some (Handle dbName), sq_drizzle = None, sq_isOpening = False,
                       sq_dbPath = []\<rparr>, dd_isOpen = False\<rparr>"
    by (simp add: halfOpenEngine_def prepare_def open_libsql_def open_try_def okEnv_def
        new_DictionaryDatabase_def new_SQLiteDatabase_def)
  have 2: "purge okEnv halfOpenEngine [ascii ''dict.sqlite'']
           = (Inl AlreadyOpen, halfOpenEngine, [ascii ''dict.sqlite''])"
    using n
    by (simp add: h purge_def isOpening_def prepare_def open_libsql_def okEnv_def
        deleteDatabase_def rm_def)
  have 3: "purge okEnv preparedEngine [ascii ''dict.sqlite'']
           = (Inr True, preparedEngine, [ascii ''dict.sqlite''])"
    using n
    by (simp add: purge_def isOpening_def preparedEngine_def close_db_def prepare_def
        open_libsql_def open_try_def okEnv_def deleteDatabase_def rm_def)
  show ?thesis
    by (simp add: 1 2 3 databaseFile_dbName isPrepared_def)
       (simp add: preparedEngine_def h isOpening_def)
qed

section \<open>Properties of the lookups\<close>


lemma matches_Nil [simp]: "matches g i [] = []"
  by (simp add: matches_def)

lemma matches_Cons [simp]: "matches g i (k # ks) = g i k @ matches g (Suc i) ks"
  by (simp add: matches_def)






















lemma itemsToAdd_nonneg:
  "0 \<le> start \<Longrightarrow> 0 \<le> count \<Longrightarrow>
   itemsToAdd items start count = take (nat count) (drop (nat start) items)"
  by (auto simp add: itemsToAdd_def slice_def Let_def min_def max_def)

lemma connected_getDb: "sq_drizzle (dd_db this) \<noteq> None \<Longrightarrow> \<exists>h. getDb (dd_db this) = Inr h"
  by (auto simp: getDb_def split: option.splits)















lemma preparedEngine_connected: "sq_drizzle (dd_db preparedEngine) \<noteq> None"
  by (simp add: preparedEngine_def)





section \<open>Properties of the mutation\<close>

lemma foldr_max_acc: "foldr max ids (a::nat) = max (foldr max ids 0) a"
  by (induction ids) auto

lemma nextId_snoc: "nextId (ids @ [nextId ids]) = Suc (nextId ids)"
  using foldr_max_acc [of ids "Suc (foldr max ids 0)"] by (simp add: nextId_def)

lemma take_drop_positions:
  "take n (drop m xs) = map ((!) xs) [m..<min (m + n) (length xs)]"
  by (rule nth_equalityI) auto

lemma itemsToAdd_positions:
  "0 \<le> start \<Longrightarrow> 0 \<le> count \<Longrightarrow>
   itemsToAdd items start count
     = map ((!) items) [nat start..<min (nat (start + count)) (length items)]"
  by (simp add: itemsToAdd_nonneg take_drop_positions nat_add_distrib)

lemma terms_idrow [simp]: "terms_id (termRow k x) = k"
  by (simp add: termRow_def)

lemma foldl_insertTerm:
  "foldl insertTerm store xs
     = store\<lparr>terms := terms store
         @ map (\<lambda>(k, x). termRow k x) (enumerate (nextId (map terms_id (terms store))) xs)\<rparr>"
proof (induction xs arbitrary: store)
  case Nil
  then show ?case by simp
next
  case (Cons x xs)
  have n: "nextId (map terms_id (terms (insertTerm store x))) = Suc (nextId (map terms_id (terms store)))"
    by (simp add: insertTerm_def nextId_snoc)
  show ?case
    by (simp add: Cons.IH n) (simp add: insertTerm_def)
qed

lemma bulkAdd_terms_rows:
  assumes "sq_drizzle (dd_db this) \<noteq> None" and "0 \<le> start"
  shows "bulkAdd this store (TermsData items) start count
     = (Inr (), store\<lparr>terms := terms store
         @ map (\<lambda>(k, x). termRow k x)
             (enumerate (nextId (map terms_id (terms store)))
                (map ((!) items) [nat start..<min (nat (start + count)) (length items)]))\<rparr>)"
proof (cases "items = [] \<or> count \<le> 0")
  case True
  then have "map ((!) items) [nat start..<min (nat (start + count)) (length items)] = []"
    by auto
  then show ?thesis using True by (auto simp add: bulkAdd_def)
next
  case False
  then show ?thesis
    using connected_getDb [OF assms(1)] assms(2)
    by (auto simp add: bulkAdd_def itemsToAdd_positions foldl_insertTerm)
qed

lemma termMeta_idrow [simp]: "termMeta_id (termMetaRow k x) = k"
  by (simp add: termMetaRow_def)

lemma foldl_insertTermMeta:
  "foldl insertTermMeta store xs
     = store\<lparr>termMeta := termMeta store
         @ map (\<lambda>(k, x). termMetaRow k x) (enumerate (nextId (map termMeta_id (termMeta store))) xs)\<rparr>"
proof (induction xs arbitrary: store)
  case Nil
  then show ?case by simp
next
  case (Cons x xs)
  have n: "nextId (map termMeta_id (termMeta (insertTermMeta store x))) = Suc (nextId (map termMeta_id (termMeta store)))"
    by (simp add: insertTermMeta_def nextId_snoc)
  show ?case
    by (simp add: Cons.IH n) (simp add: insertTermMeta_def)
qed


lemma kanji_idrow [simp]: "kanji_id (kanjiRow k x) = k"
  by (simp add: kanjiRow_def)

lemma foldl_insertKanji:
  "foldl insertKanji store xs
     = store\<lparr>kanji := kanji store
         @ map (\<lambda>(k, x). kanjiRow k x) (enumerate (nextId (map kanji_id (kanji store))) xs)\<rparr>"
proof (induction xs arbitrary: store)
  case Nil
  then show ?case by simp
next
  case (Cons x xs)
  have n: "nextId (map kanji_id (kanji (insertKanji store x))) = Suc (nextId (map kanji_id (kanji store)))"
    by (simp add: insertKanji_def nextId_snoc)
  show ?case
    by (simp add: Cons.IH n) (simp add: insertKanji_def)
qed


lemma kanjiMeta_idrow [simp]: "kanjiMeta_id (kanjiMetaRow k x) = k"
  by (simp add: kanjiMetaRow_def)

lemma foldl_insertKanjiMeta:
  "foldl insertKanjiMeta store xs
     = store\<lparr>kanjiMeta := kanjiMeta store
         @ map (\<lambda>(k, x). kanjiMetaRow k x) (enumerate (nextId (map kanjiMeta_id (kanjiMeta store))) xs)\<rparr>"
proof (induction xs arbitrary: store)
  case Nil
  then show ?case by simp
next
  case (Cons x xs)
  have n: "nextId (map kanjiMeta_id (kanjiMeta (insertKanjiMeta store x))) = Suc (nextId (map kanjiMeta_id (kanjiMeta store)))"
    by (simp add: insertKanjiMeta_def nextId_snoc)
  show ?case
    by (simp add: Cons.IH n) (simp add: insertKanjiMeta_def)
qed


lemma tagMeta_idrow [simp]: "tagMeta_id (tagMetaRow k x) = k"
  by (simp add: tagMetaRow_def)

lemma foldl_insertTagMeta:
  "foldl insertTagMeta store xs
     = store\<lparr>tagMeta := tagMeta store
         @ map (\<lambda>(k, x). tagMetaRow k x) (enumerate (nextId (map tagMeta_id (tagMeta store))) xs)\<rparr>"
proof (induction xs arbitrary: store)
  case Nil
  then show ?case by simp
next
  case (Cons x xs)
  have n: "nextId (map tagMeta_id (tagMeta (insertTagMeta store x))) = Suc (nextId (map tagMeta_id (tagMeta store)))"
    by (simp add: insertTagMeta_def nextId_snoc)
  show ?case
    by (simp add: Cons.IH n) (simp add: insertTagMeta_def)
qed


lemma media_idrow [simp]: "media_id (mediaRow k x) = k"
  by (simp add: mediaRow_def)

lemma foldl_insertMedia:
  "foldl insertMedia store xs
     = store\<lparr>media := media store
         @ map (\<lambda>(k, x). mediaRow k x) (enumerate (nextId (map media_id (media store))) xs)\<rparr>"
proof (induction xs arbitrary: store)
  case Nil
  then show ?case by simp
next
  case (Cons x xs)
  have n: "nextId (map media_id (media (insertMedia store x))) = Suc (nextId (map media_id (media store)))"
    by (simp add: insertMedia_def nextId_snoc)
  show ?case
    by (simp add: Cons.IH n) (simp add: insertMedia_def)
qed


lemma dict_title_dictionaryRow [simp]: "dict_title (dictionaryRow x) = sum_title x"
  by (simp add: dictionaryRow_def)



lemma bulkAdd_noop:
  "items_length items = 0 \<or> count \<le> 0 \<Longrightarrow> bulkAdd this store items start count = (Inr (), store)"
  by (simp add: bulkAdd_def)


lemma bulkAdd_NotOpen:
  "sq_drizzle (dd_db this) = None \<Longrightarrow> items_length items \<noteq> 0 \<Longrightarrow> 0 < count \<Longrightarrow>
   bulkAdd this store items start count = (Inl NotOpen, store)"
  by (simp add: bulkAdd_def getDb_def)




text \<open>
  With a negative \<open>start\<close> the slice is taken from the end of the array: of three terms,
  \<open>start = -2\<close> and \<open>count = 5\<close> insert the last two.
\<close>

lemma bulkAdd_negative_start:
  "bulkAdd preparedEngine emptyTables (TermsData [termA, termB, termA]) (- 2) 5
     = (Inr (), emptyTables\<lparr>terms := [termRow 1 termB, termRow 2 termA]\<rparr>)"
  by (simp add: bulkAdd_def getDb_def preparedEngine_def itemsToAdd_def slice_def
      insertTerm_def emptyTables_def nextId_def numeral_2_eq_2)

section \<open>Properties of the counts\<close>







section \<open>Properties of the reversal\<close>

lemma spread_single: "\<not> isHighSurrogate u \<Longrightarrow> spread (u # s) = [u] # spread s"
  by (cases s) simp_all

lemma concat_spread: "concat (spread s) = s"
  by (induction s rule: spread.induct) simp_all

lemma codePoint_cases:
  "codePoint cp \<Longrightarrow>
   (\<exists>u. cp = [u] \<and> \<not> isHighSurrogate u \<and> \<not> isLowSurrogate u)
   \<or> (\<exists>u v. cp = [u, v] \<and> isHighSurrogate u \<and> isLowSurrogate v)"
  by (auto simp add: codePoint_def split: list.splits)

lemma spread_codePoint_append:
  "codePoint cp \<Longrightarrow> spread (cp @ s) = cp # spread s"
  by (drule codePoint_cases) (auto simp add: spread_single)

lemma spread_concat: "list_all codePoint cps \<Longrightarrow> spread (concat cps) = cps"
  by (induction cps) (simp_all add: spread_codePoint_append)

lemma spread_reverseString: "wellFormed s \<Longrightarrow> spread (reverseString s) = rev (spread s)"
  by (simp add: wellFormed_def reverseString_def spread_concat)

lemma wellFormed_reverseString: "wellFormed s \<Longrightarrow> wellFormed (reverseString s)"
  using spread_reverseString [of s] by (simp add: wellFormed_def)

lemma reverseString_involution: "wellFormed s \<Longrightarrow> reverseString (reverseString s) = s"
  using spread_reverseString [of s] by (simp add: reverseString_def [of "reverseString s"] concat_spread)

lemma reverseString_Nil_iff: "reverseString s = [] \<longleftrightarrow> s = []"
proof
  assume "reverseString s = []"
  then have "\<forall>cp \<in> set (spread s). cp = []" by (auto simp: reverseString_def)
  then have "concat (spread s) = []" by auto
  then show "s = []" by (simp add: concat_spread)
next
  assume "s = []" then show "reverseString s = []" by (simp add: reverseString_def)
qed

lemma reversedColumns_termRow: "reversedColumns (termRow k item)"
  by (simp add: reversedColumns_def termRow_def Let_def)

lemma termRow_ignores_reverse:
  "termRow k (item\<lparr>dte_expressionReverse := a, dte_readingReverse := b\<rparr>) = termRow k item"
  by (simp add: termRow_def Let_def split: option.splits)

lemma insertTerm_ignores_reverse:
  "insertTerm store (item\<lparr>dte_expressionReverse := a, dte_readingReverse := b\<rparr>)
     = insertTerm store item"
  by (simp add: insertTerm_def termRow_ignores_reverse)

lemma foldl_insertTerm_ignores_reverse:
  "foldl insertTerm store
     (map (\<lambda>item. item\<lparr>dte_expressionReverse := er item, dte_readingReverse := rr item\<rparr>) xs)
     = foldl insertTerm store xs"
  by (induction xs arbitrary: store) (simp_all add: insertTerm_ignores_reverse)

lemma itemsToAdd_map: "itemsToAdd (map f xs) start count = map f (itemsToAdd xs start count)"
  by (simp add: itemsToAdd_def slice_def Let_def take_map drop_map)

lemma bulkAdd_ignores_reverse:
  "bulkAdd this store
     (TermsData (map (\<lambda>item. item\<lparr>dte_expressionReverse := er item,
                                    dte_readingReverse := rr item\<rparr>) ts)) start count
     = bulkAdd this store (TermsData ts) start count"
  by (simp add: bulkAdd_def itemsToAdd_map foldl_insertTerm_ignores_reverse split: sum.splits)

lemma terms_insertDictionaries: "terms (snd (insertDictionaries xs store)) = terms store"
proof (induction xs arbitrary: store)
  case Nil
  then show ?case by simp
next
  case (Cons x xs)
  show ?case
  proof (cases "insertDictionary x store")
    case (Inl err)
    then show ?thesis by simp
  next
    case (Inr store')
    then have "terms store' = terms store"
      by (auto simp add: insertDictionary_def split: if_splits)
    then show ?thesis using Inr Cons.IH [of store'] by simp
  qed
qed

lemma bulkAdd_term_row:
  assumes c: "sq_drizzle (dd_db this) \<noteq> None" and s: "0 \<le> start"
    and i: "i < length (subSlice ts start count)"
  shows "terms (snd (bulkAdd this store (TermsData ts) start count)) ! (length (terms store) + i)
           = termRow (nextId (map terms_id (terms store)) + i) (subSlice ts start count ! i)"
  using i by (simp add: bulkAdd_terms_rows [OF c s] subSlice_def nth_append nth_enumerate_eq)

lemma wellFormed_nihongo: "wellFormed nihongo"
  by (simp add: wellFormed_def nihongo_def codePoint_def isHighSurrogate_def isLowSurrogate_def)

section \<open>Properties of the dictionary summaries\<close>








text \<open>
  The row that \<^verbatim>\<open>bulkAdd\<close> writes for a summary never has a version tag: the insert
  does not name the column.
\<close>

lemma version_tag_not_stored:
  "dict_yomitanVersion (dictionaryRow d) = None
   \<and> sum_yomitanVersion (summaryOfRow now (dictionaryRow d)) = None"
  by (simp add: dictionaryRow_def summaryOfRow_def)

section \<open>Properties of LIKE\<close>



lemma spread_append:
  "t = [] \<or> \<not> isLowSurrogate (hd t) \<Longrightarrow> spread (s @ t) = spread s @ spread t"
proof (induction s rule: spread.induct)
  case 1
  then show ?case by simp
next
  case (2 u)
  then show ?case by (cases t) simp_all
next
  case (3 u v rest)
  then show ?case by simp
qed


lemma high_not_low: "isHighSurrogate u \<Longrightarrow> \<not> isLowSurrogate u"
  by (auto simp add: isHighSurrogate_def isLowSurrogate_def word_le_nat_alt)

lemma wellFormed_hd: "wellFormed t \<Longrightarrow> t = [] \<or> \<not> isLowSurrogate (hd t)"
proof (cases t)
  case Nil
  then show ?thesis by simp
next
  case (Cons u r)
  assume w: "wellFormed t"
  show ?thesis
  proof (cases r)
    case Nil
    then show ?thesis using w Cons by (simp add: wellFormed_def codePoint_def)
  next
    case (Cons v r')
    then show ?thesis
      using w \<open>t = u # r\<close> high_not_low [of u]
      by (auto simp add: wellFormed_def codePoint_def split: if_splits)
  qed
qed

















lemma set_reverseString: "set (reverseString q) = set q"
proof -
  have "set (reverseString q) = set (concat (spread q))"
    by (simp add: reverseString_def)
  then show ?thesis by (simp add: concat_spread)
qed




section \<open>Properties of the database file\<close>

lemma toWellFormed_id: "wellFormed s \<Longrightarrow> toWellFormed s = s"
proof -
  assume "wellFormed s"
  then have "map (\<lambda>cp. if codePoint cp then cp else [0xFFFD]) (spread s) = spread s"
    by (simp add: wellFormed_def list_all_iff map_idI)
  then show ?thesis by (simp add: toWellFormed_def concat_spread)
qed

lemma codePoint_replacement: "codePoint [0xFFFD]"
  by (simp add: codePoint_def isHighSurrogate_def isLowSurrogate_def)

lemma spread_toWellFormed:
  "spread (toWellFormed s) = map (\<lambda>cp. if codePoint cp then cp else [0xFFFD]) (spread s)"
  unfolding toWellFormed_def
  by (rule spread_concat) (auto simp add: list_all_iff codePoint_replacement)

lemma wellFormed_toWellFormed: "wellFormed (toWellFormed s)"
  by (auto simp add: wellFormed_def spread_toWellFormed list_all_iff codePoint_replacement)

lemma toWellFormed_idem: "toWellFormed (toWellFormed s) = toWellFormed s"
  by (rule toWellFormed_id) (rule wellFormed_toWellFormed)

lemma cstring_id: "0 \<notin> set s \<Longrightarrow> cstring s = s"
  by (simp add: cstring_def takeWhile_eq_all_conv) metis

lemma plainText_stored: "plainText s \<Longrightarrow> toWellFormed s = s"
  by (simp add: plainText_def toWellFormed_id)

lemma plainText_returned: "plainText s \<Longrightarrow> cstring s = s"
  by (simp add: plainText_def cstring_id)

lemma storedTerm_plain: "plainTerm row \<Longrightarrow> storedTerm row = row"
  by (auto simp add: plainTerm_def storedTerm_def plainText_stored split: option.splits)

lemma returnedTerm_plain: "plainTerm row \<Longrightarrow> returnedTerm row = Inr row"
  by (auto simp add: plainTerm_def returnedTerm_def plainText_returned split: option.splits)

lemma returnedTerms_plain: "\<forall>row \<in> set rows. plainTerm row \<Longrightarrow> returnedTerms rows = Inr rows"
  by (induction rows) (simp_all add: returnedTerm_plain)

lemma storedTerms_plain: "\<forall>row \<in> set (terms store). plainTerm row \<Longrightarrow> storedTerms store = terms store"
  by (simp add: storedTerms_def storedTerm_plain map_idI)

lemma select_where_Inr:
  "\<forall>row \<in> set rows. c row = Inr (b row) \<Longrightarrow> select_where c rows = Inr (filter b rows)"
  by (induction rows) simp_all


lemma sql_like_short:
  "utf8_length pattern \<le> 50000 \<Longrightarrow>
   sql_like column pattern
     = Inr (case column of None \<Rightarrow> False | Some s \<Rightarrow> like_match pattern s)"
  by (simp add: sql_like_def)


lemma wellFormed_append: "wellFormed a \<Longrightarrow> wellFormed b \<Longrightarrow> wellFormed (a @ b)"
  using spread_append [OF wellFormed_hd, of b a] by (simp add: wellFormed_def)

lemma wellFormed_ascii_percent: "wellFormed (ascii ''%'')"
  by (simp add: wellFormed_def ascii_def codePoint_def isHighSurrogate_def isLowSurrogate_def)

lemma utf8_length_append:
  "wellFormed b \<Longrightarrow> utf8_length (a @ b) = utf8_length a + utf8_length b"
  using spread_append [OF wellFormed_hd, of b a] by (simp add: utf8_length_def)

lemma utf8_length_reverseString: "wellFormed s \<Longrightarrow> utf8_length (reverseString s) = utf8_length s"
  by (simp add: utf8_length_def spread_reverseString rev_map [symmetric])

lemma utf8_length_percent: "utf8_length (ascii ''%'') = 1"
  by (simp add: utf8_length_def ascii_def)


section \<open>Properties of the suffix lookup\<close>


lemma suffix_pattern_plain:
  assumes "plainText q"
  shows "toWellFormed (reverseString q @ ascii ''%'') = reverseString q @ ascii ''%''"
    and "0 \<notin> set (reverseString q @ ascii ''%'')"
    and "utf8_length (reverseString q @ ascii ''%'') = Suc (utf8_length q)"
proof -
  have w: "wellFormed q" and z: "0 \<notin> set q" using assms by (simp_all add: plainText_def)
  show "toWellFormed (reverseString q @ ascii ''%'') = reverseString q @ ascii ''%''"
    by (intro toWellFormed_id wellFormed_append wellFormed_reverseString w
        wellFormed_ascii_percent)
  show "0 \<notin> set (reverseString q @ ascii ''%'')"
    using z by (simp add: set_reverseString ascii_def)
  show "utf8_length (reverseString q @ ascii ''%'') = Suc (utf8_length q)"
    by (simp add: utf8_length_append wellFormed_ascii_percent utf8_length_reverseString w
        utf8_length_percent)
qed

lemma suffix_select_short:
  assumes "utf8_length pat \<le> 50000"
  shows "select_where (\<lambda>row. sql_like (f row) pat) rows
         = Inr (filter (\<lambda>row. sql_like (f row) pat = Inr True) rows)"
proof -
  have "select_where (\<lambda>row. sql_like (f row) pat) rows
        = Inr (filter (\<lambda>row. case f row of None \<Rightarrow> False | Some s \<Rightarrow> like_match pat s) rows)"
    by (rule select_where_Inr) (simp add: sql_like_short [OF assms])
  then show ?thesis by (simp add: sql_like_short [OF assms])
qed









lemma plainText_reverseString: "plainText s \<Longrightarrow> plainText (reverseString s)"
  by (simp add: plainText_def wellFormed_reverseString set_reverseString)

lemma termRow_plain:
  "plainItem item \<Longrightarrow> isSafeInteger (int k) \<Longrightarrow> plainTerm (termRow k item)"
  by (auto simp add: plainItem_def plainTerm_def termRow_def Let_def plainText_reverseString
      split: option.splits)

lemma terms_storeOf_one: "terms (storeOf [x]) = [termRow 1 x]"
  by (simp add: storeOf_def bulkAdd_def getDb_def preparedEngine_def itemsToAdd_def slice_def
      insertTerm_def emptyTables_def nextId_def)

lemma plainText_nihongo: "plainText nihongo"
  by (simp add: plainText_def wellFormed_nihongo) (simp add: nihongo_def)


lemma plainText_kana: "plainText [0x306B, 0x307B, 0x3093, 0x3054]"
  by (simp add: plainText_def wellFormed_def codePoint_def isHighSurrogate_def isLowSurrogate_def)













lemmas eval_text = toWellFormed_def reverseString_def codePoint_def isHighSurrogate_def
  isLowSurrogate_def ascii_def utf8_length_def cstring_def like_match_def sql_like_def
  like_lower_def








lemma stored_termSplit:
  "terms_expression (storedTerm (termRow k termSplit)) = [0xFFFD, 0xFFFD]"
  "terms_expressionReverse (storedTerm (termRow k termSplit)) = Some [0xD842, 0xDFB7]"
  "reverseString [0xFFFD, 0xFFFD] = [0xFFFD, 0xFFFD]"
  by (simp_all add: storedTerm_def termRow_def termSplit_def Let_def eval_text)






section \<open>Properties of the stored reversed columns\<close>

lemma set_itemsToAdd: "set (itemsToAdd xs start count) \<subseteq> set xs"
proof -
  have "set (take n (drop m xs)) \<subseteq> set xs" for n m
    using set_take_subset [of n "drop m xs"] set_drop_subset [of m xs] by blast
  then show ?thesis by (simp add: itemsToAdd_def slice_def Let_def)
qed

lemma bulkAdd_terms_from:
  "\<exists>xs. terms (snd (bulkAdd this store (TermsData ts) start count))
           = terms store @ map (\<lambda>(k, x). termRow k x) xs
        \<and> snd ` set xs \<subseteq> set ts"
proof (cases "items_length (TermsData ts) = 0 \<or> count \<le> 0")
  case True
  then have "terms (snd (bulkAdd this store (TermsData ts) start count))
               = terms store @ map (\<lambda>(k, x). termRow k x) [] \<and> snd ` set [] \<subseteq> set ts"
    by (simp add: bulkAdd_noop)
  then show ?thesis by blast
next
  case False
  show ?thesis
  proof (cases "getDb (dd_db this)")
    case (Inl err)
    then have "terms (snd (bulkAdd this store (TermsData ts) start count))
               = terms store @ map (\<lambda>(k, x). termRow k x) [] \<and> snd ` set [] \<subseteq> set ts"
      using False by (simp add: bulkAdd_def)
    then show ?thesis by blast
  next
    case (Inr h)
    let ?xs = "enumerate (nextId (map terms_id (terms store))) (itemsToAdd ts start count)"
    have "terms (snd (bulkAdd this store (TermsData ts) start count))
               = terms store @ map (\<lambda>(k, x). termRow k x) ?xs"
      using False Inr by (simp add: bulkAdd_def foldl_insertTerm)
    moreover have "snd ` set ?xs \<subseteq> set ts"
    proof -
      have "snd ` set ?xs = set (itemsToAdd ts start count)"
        by (simp only: set_map [symmetric] map_snd_enumerate)
      then show ?thesis using set_itemsToAdd [of ts start count] by simp
    qed
    ultimately show ?thesis by blast
  qed
qed

lemma bulkAdd_other_terms:
  "objectStoreName items \<noteq> Terms \<Longrightarrow>
   terms (snd (bulkAdd this store items start count)) = terms store"
proof (cases "items_length items = 0 \<or> count \<le> 0")
  case True
  then show ?thesis by (simp add: bulkAdd_noop)
next
  case False
  assume n: "objectStoreName items \<noteq> Terms"
  show ?thesis
  proof (cases "getDb (dd_db this)")
    case (Inl err)
    then show ?thesis using False by (simp add: bulkAdd_def)
  next
    case (Inr h)
    show ?thesis
      using n False Inr
      by (cases items)
         (simp_all add: bulkAdd_def terms_insertDictionaries foldl_insertTermMeta
            foldl_insertKanji foldl_insertKanjiMeta foldl_insertTagMeta foldl_insertMedia)
  qed
qed

lemma stored_termRow:
  "terms_expression (storedTerm (termRow k item)) = toWellFormed (dte_expression item)"
  "terms_reading (storedTerm (termRow k item)) = toWellFormed (dte_reading item)"
  "terms_expressionReverse (storedTerm (termRow k item))
     = (if dte_expression item = [] then None
        else Some (toWellFormed (reverseString (dte_expression item))))"
  "terms_readingReverse (storedTerm (termRow k item))
     = (if dte_reading item = [] then None
        else Some (toWellFormed (reverseString (dte_reading item))))"
  by (simp_all add: storedTerm_def termRow_def Let_def)

lemma stored_termRow_wellFormed:
  assumes "wellFormed (dte_expression item)"
  shows "terms_expression (storedTerm (termRow k item)) = dte_expression item"
    and "terms_expressionReverse (storedTerm (termRow k item))
           = (if terms_expression (storedTerm (termRow k item)) = [] then None
              else Some (reverseString (terms_expression (storedTerm (termRow k item)))))"
  using assms
  by (simp_all add: stored_termRow toWellFormed_id wellFormed_reverseString)

lemma stored_termRow_wellFormed_reading:
  assumes "wellFormed (dte_reading item)"
  shows "terms_reading (storedTerm (termRow k item)) = dte_reading item"
    and "terms_readingReverse (storedTerm (termRow k item))
           = (if terms_reading (storedTerm (termRow k item)) = [] then None
              else Some (reverseString (terms_reading (storedTerm (termRow k item)))))"
  using assms
  by (simp_all add: stored_termRow toWellFormed_id wellFormed_reverseString)

lemma reversedColumns_stored:
  "wellFormed (dte_expression item) \<Longrightarrow> wellFormed (dte_reading item) \<Longrightarrow>
   reversedColumns (storedTerm (termRow k item))"
  unfolding reversedColumns_def
  using stored_termRow_wellFormed(2) [of item k] stored_termRow_wellFormed_reading(2) [of item k]
  by simp

lemma bulkAdd_keeps_stored_reversedColumns:
  assumes "\<forall>row \<in> set (storedTerms store). reversedColumns row"
    and "\<forall>item \<in> set ts. wellFormed (dte_expression item) \<and> wellFormed (dte_reading item)"
  shows "\<forall>row \<in> set (storedTerms (snd (bulkAdd this store (TermsData ts) start count))).
           reversedColumns row"
proof -
  obtain xs where xs: "terms (snd (bulkAdd this store (TermsData ts) start count))
           = terms store @ map (\<lambda>(k, x). termRow k x) xs" "snd ` set xs \<subseteq> set ts"
    using bulkAdd_terms_from by blast
  have "reversedColumns (storedTerm (termRow k x))" if "(k, x) \<in> set xs" for k x
  proof -
    have "x \<in> set ts" using that xs(2) by force
    then show ?thesis using assms(2) by (intro reversedColumns_stored) simp_all
  qed
  then show ?thesis
    using assms(1) by (auto simp add: storedTerms_def xs(1))
qed

lemma stored_bulkAdd_term_row:
  assumes c: "sq_drizzle (dd_db this) \<noteq> None" and s: "0 \<le> start"
    and i: "i < length (subSlice ts start count)"
  shows "storedTerms (snd (bulkAdd this store (TermsData ts) start count))
           ! (length (terms store) + i)
         = storedTerm (termRow (nextId (map terms_id (terms store)) + i)
                         (subSlice ts start count ! i))"
proof -
  have "length (terms (snd (bulkAdd this store (TermsData ts) start count)))
        = length (terms store) + length (subSlice ts start count)"
    by (simp add: bulkAdd_terms_rows [OF c s] subSlice_def)
  then have "length (terms store) + i
             < length (terms (snd (bulkAdd this store (TermsData ts) start count)))"
    using i by simp
  then show ?thesis
    by (simp add: storedTerms_def bulkAdd_term_row [OF c s i])
qed

text \<open>
  C2, as amended. For every item of the sub-slice that \<^verbatim>\<open>bulkAdd('terms', ...)\<close> inserts,
  the row in the file holds the item's expression and reading with every unpaired
  surrogate replaced by U+FFFD, its \<open>expressionReverse\<close> is the reversal of the item's
  expression, stored likewise, when the expression is not empty, and NULL when it is, and
  likewise \<open>readingReverse\<close> for the reading. When the item's expression is well formed,
  the row holds it as it is and \<open>expressionReverse\<close> is the reversal of the stored
  expression or NULL; likewise for the reading. Every call of \<^verbatim>\<open>bulkAdd\<close> with terms of
  well-formed expressions and readings, and every call for another store, keeps this true
  of all rows of the terms table. The reversed columns an item brings are ignored. The
  reversal is by code point: for a well-formed string the code points of the reversal are
  the code points of the string in reverse order, the reversal is well formed, and
  reversing twice gives the string back; a surrogate pair is not split.
\<close>

theorem reversed_columns_on_insert:
  "(sq_drizzle (dd_db this) \<noteq> None \<and> 0 \<le> start \<and> i < length (subSlice ts start count) \<longrightarrow>
      terms_expression
          (storedTerms (snd (bulkAdd this store (TermsData ts) start count))
             ! (length (terms store) + i))
        = toWellFormed (dte_expression (subSlice ts start count ! i))
      \<and> terms_reading
          (storedTerms (snd (bulkAdd this store (TermsData ts) start count))
             ! (length (terms store) + i))
        = toWellFormed (dte_reading (subSlice ts start count ! i))
      \<and> terms_expressionReverse
          (storedTerms (snd (bulkAdd this store (TermsData ts) start count))
             ! (length (terms store) + i))
        = (if dte_expression (subSlice ts start count ! i) = [] then None
           else Some (toWellFormed (reverseString (dte_expression (subSlice ts start count ! i)))))
      \<and> terms_readingReverse
          (storedTerms (snd (bulkAdd this store (TermsData ts) start count))
             ! (length (terms store) + i))
        = (if dte_reading (subSlice ts start count ! i) = [] then None
           else Some (toWellFormed (reverseString (dte_reading (subSlice ts start count ! i)))))
      \<and> (wellFormed (dte_expression (subSlice ts start count ! i)) \<longrightarrow>
           terms_expression
               (storedTerms (snd (bulkAdd this store (TermsData ts) start count))
                  ! (length (terms store) + i))
             = dte_expression (subSlice ts start count ! i)
           \<and> terms_expressionReverse
               (storedTerms (snd (bulkAdd this store (TermsData ts) start count))
                  ! (length (terms store) + i))
             = (if dte_expression (subSlice ts start count ! i) = [] then None
                else Some (reverseString
                             (terms_expression
                                (storedTerms (snd (bulkAdd this store (TermsData ts) start count))
                                   ! (length (terms store) + i))))))
      \<and> (wellFormed (dte_reading (subSlice ts start count ! i)) \<longrightarrow>
           terms_reading
               (storedTerms (snd (bulkAdd this store (TermsData ts) start count))
                  ! (length (terms store) + i))
             = dte_reading (subSlice ts start count ! i)
           \<and> terms_readingReverse
               (storedTerms (snd (bulkAdd this store (TermsData ts) start count))
                  ! (length (terms store) + i))
             = (if dte_reading (subSlice ts start count ! i) = [] then None
                else Some (reverseString
                             (terms_reading
                                (storedTerms (snd (bulkAdd this store (TermsData ts) start count))
                                   ! (length (terms store) + i)))))))
   \<and> ((\<forall>row \<in> set (storedTerms store). reversedColumns row)
        \<and> (\<forall>item \<in> set ts. wellFormed (dte_expression item) \<and> wellFormed (dte_reading item)) \<longrightarrow>
        (\<forall>row \<in> set (storedTerms (snd (bulkAdd this store (TermsData ts) start count))).
           reversedColumns row))
   \<and> (objectStoreName items \<noteq> Terms \<longrightarrow>
        storedTerms (snd (bulkAdd this store items start count)) = storedTerms store)
   \<and> bulkAdd this store
        (TermsData (map (\<lambda>item. item\<lparr>dte_expressionReverse := er item,
                                       dte_readingReverse := rr item\<rparr>) ts)) start count
       = bulkAdd this store (TermsData ts) start count
   \<and> (wellFormed s \<longrightarrow>
        spread (reverseString s) = rev (spread s) \<and> wellFormed (reverseString s)
        \<and> reverseString (reverseString s) = s)
   \<and> reverseString [0xD83D, 0xDE00, 0x61] = [0x61, 0xD83D, 0xDE00]"
proof (intro conjI impI)
  assume a: "sq_drizzle (dd_db this) \<noteq> None \<and> 0 \<le> start \<and> i < length (subSlice ts start count)"
  have r: "storedTerms (snd (bulkAdd this store (TermsData ts) start count))
             ! (length (terms store) + i)
           = storedTerm (termRow (nextId (map terms_id (terms store)) + i)
                           (subSlice ts start count ! i))"
    using a by (intro stored_bulkAdd_term_row) simp_all
  show "terms_expression
          (storedTerms (snd (bulkAdd this store (TermsData ts) start count))
             ! (length (terms store) + i))
        = toWellFormed (dte_expression (subSlice ts start count ! i))"
    unfolding r by (rule stored_termRow)
  show "terms_reading
          (storedTerms (snd (bulkAdd this store (TermsData ts) start count))
             ! (length (terms store) + i))
        = toWellFormed (dte_reading (subSlice ts start count ! i))"
    unfolding r by (rule stored_termRow)
  show "terms_expressionReverse
          (storedTerms (snd (bulkAdd this store (TermsData ts) start count))
             ! (length (terms store) + i))
        = (if dte_expression (subSlice ts start count ! i) = [] then None
           else Some (toWellFormed (reverseString (dte_expression (subSlice ts start count ! i)))))"
    unfolding r by (rule stored_termRow)
  show "terms_readingReverse
          (storedTerms (snd (bulkAdd this store (TermsData ts) start count))
             ! (length (terms store) + i))
        = (if dte_reading (subSlice ts start count ! i) = [] then None
           else Some (toWellFormed (reverseString (dte_reading (subSlice ts start count ! i)))))"
    unfolding r by (rule stored_termRow)
  {
    assume w: "wellFormed (dte_expression (subSlice ts start count ! i))"
    show "terms_expression
               (storedTerms (snd (bulkAdd this store (TermsData ts) start count))
                  ! (length (terms store) + i))
             = dte_expression (subSlice ts start count ! i)"
      unfolding r using w by (rule stored_termRow_wellFormed)
    show "terms_expressionReverse
               (storedTerms (snd (bulkAdd this store (TermsData ts) start count))
                  ! (length (terms store) + i))
             = (if dte_expression (subSlice ts start count ! i) = [] then None
                else Some (reverseString
                             (terms_expression
                                (storedTerms (snd (bulkAdd this store (TermsData ts) start count))
                                   ! (length (terms store) + i)))))"
      unfolding r using stored_termRow_wellFormed [OF w] by simp
  }
  {
    assume w: "wellFormed (dte_reading (subSlice ts start count ! i))"
    show "terms_reading
               (storedTerms (snd (bulkAdd this store (TermsData ts) start count))
                  ! (length (terms store) + i))
             = dte_reading (subSlice ts start count ! i)"
      unfolding r using w by (rule stored_termRow_wellFormed_reading)
    show "terms_readingReverse
               (storedTerms (snd (bulkAdd this store (TermsData ts) start count))
                  ! (length (terms store) + i))
             = (if dte_reading (subSlice ts start count ! i) = [] then None
                else Some (reverseString
                             (terms_reading
                                (storedTerms (snd (bulkAdd this store (TermsData ts) start count))
                                   ! (length (terms store) + i)))))"
      unfolding r using stored_termRow_wellFormed_reading [OF w] by simp
  }
next
  assume "(\<forall>row \<in> set (storedTerms store). reversedColumns row)
        \<and> (\<forall>item \<in> set ts. wellFormed (dte_expression item) \<and> wellFormed (dte_reading item))"
  then show "\<forall>row \<in> set (storedTerms (snd (bulkAdd this store (TermsData ts) start count))).
           reversedColumns row"
    by (intro bulkAdd_keeps_stored_reversedColumns) simp_all
next
  assume "objectStoreName items \<noteq> Terms"
  then show "storedTerms (snd (bulkAdd this store items start count)) = storedTerms store"
    by (simp add: storedTerms_def bulkAdd_other_terms)
next
  show "bulkAdd this store
        (TermsData (map (\<lambda>item. item\<lparr>dte_expressionReverse := er item,
                                       dte_readingReverse := rr item\<rparr>) ts)) start count
       = bulkAdd this store (TermsData ts) start count"
    by (rule bulkAdd_ignores_reverse)
next
  assume w: "wellFormed s"
  show "spread (reverseString s) = rev (spread s)" using w by (rule spread_reverseString)
  show "wellFormed (reverseString s)" using w by (rule wellFormed_reverseString)
  show "reverseString (reverseString s) = s" using w by (rule reverseString_involution)
next
  show "reverseString [0xD83D, 0xDE00, 0x61] = [0x61, 0xD83D, 0xDE00]"
    by (simp add: reverseString_def isHighSurrogate_def isLowSurrogate_def)
qed

text \<open>
  A term of expression \<open>nihongo\<close> that brings the reversed columns \<open>stale\<close>: the row holds
  the expression and its reversal. The expression is well formed, and its reversal has
  its three code points in reverse order. Inserting two kanji leaves the terms table as it
  is.
\<close>

theorem reversed_columns_on_insert_witness:
  "terms_expression (storedTerms (storeOf [termStale]) ! 0) = nihongo
   \<and> terms_expressionReverse (storedTerms (storeOf [termStale]) ! 0)
       = Some [0x8A9E, 0x672C, 0x65E5]
   \<and> reversedColumns (storedTerms (storeOf [termStale]) ! 0)
   \<and> storedTerms (snd (bulkAdd preparedEngine (storeOf [termStale])
                        (KanjiData [kanjiNichi, kanjiGo]) 0 2))
       = storedTerms (storeOf [termStale])
   \<and> spread (reverseString nihongo) = [[0x8A9E], [0x672C], [0x65E5]]
   \<and> reverseString (reverseString nihongo) = nihongo"
proof -
  have s: "subSlice [termStale] 0 1 = [termStale]"
    by (simp add: subSlice_def)
  have e: "dte_expression termStale = nihongo" "dte_reading termStale = [0x306B, 0x307B, 0x3093, 0x3054]"
    by (simp_all add: termStale_def termA_def)
  have w: "wellFormed (dte_expression termStale)" "wellFormed (dte_reading termStale)"
    using plainText_nihongo plainText_kana by (simp_all add: e plainText_def)
  have o: "storeOf [termStale]
           = snd (bulkAdd preparedEngine emptyTables (TermsData [termStale]) 0 1)"
    by (simp add: storeOf_def)
  have a: "sq_drizzle (dd_db preparedEngine) \<noteq> None \<and> (0::int) \<le> 0
        \<and> 0 < length (subSlice [termStale] 0 1)"
    by (simp add: s preparedEngine_connected)
  have w0: "wellFormed (dte_expression (subSlice [termStale] 0 1 ! 0))"
    using w by (simp add: s)
  have 1: "terms_expression
               (storedTerms (snd (bulkAdd preparedEngine emptyTables (TermsData [termStale]) 0 1))
                  ! (length (terms emptyTables) + 0))
             = dte_expression (subSlice [termStale] 0 1 ! 0)
           \<and> terms_expressionReverse
               (storedTerms (snd (bulkAdd preparedEngine emptyTables (TermsData [termStale]) 0 1))
                  ! (length (terms emptyTables) + 0))
             = (if dte_expression (subSlice [termStale] 0 1 ! 0) = [] then None
                else Some (reverseString
                             (terms_expression
                                (storedTerms (snd (bulkAdd preparedEngine emptyTables
                                                     (TermsData [termStale]) 0 1))
                                   ! (length (terms emptyTables) + 0)))))"
    using reversed_columns_on_insert [where this = preparedEngine and store = emptyTables
        and ts = "[termStale]" and start = 0 and count = 1 and i = 0] a w0
    by blast
  have i: "\<forall>row \<in> set (storedTerms emptyTables). reversedColumns row"
    by (simp add: storedTerms_def emptyTables_def)
  have t: "\<forall>item \<in> set [termStale].
             wellFormed (dte_expression item) \<and> wellFormed (dte_reading item)"
    using w by simp
  have 2: "\<forall>row \<in> set (storedTerms (snd (bulkAdd preparedEngine emptyTables
                                             (TermsData [termStale]) 0 1))).
             reversedColumns row"
    using reversed_columns_on_insert [where this = preparedEngine and store = emptyTables
        and ts = "[termStale]" and start = 0 and count = 1] i t
    by blast
  have 3: "storedTerms (snd (bulkAdd preparedEngine (storeOf [termStale])
                        (KanjiData [kanjiNichi, kanjiGo]) 0 2))
       = storedTerms (storeOf [termStale])"
    using reversed_columns_on_insert [where this = preparedEngine and store = "storeOf [termStale]"
        and items = "KanjiData [kanjiNichi, kanjiGo]" and start = 0 and count = 2]
    by simp
  have 4: "spread (reverseString nihongo) = rev (spread nihongo)
           \<and> reverseString (reverseString nihongo) = nihongo"
    using reversed_columns_on_insert [where s = nihongo] wellFormed_nihongo by blast
  have 5: "rev (spread nihongo) = [[0x8A9E], [0x672C], [0x65E5]]"
    "reverseString nihongo = [0x8A9E, 0x672C, 0x65E5]" "nihongo \<noteq> []"
    by (simp_all add: nihongo_def reverseString_def isHighSurrogate_def isLowSurrogate_def)
  have 6: "terms_expression (storedTerms (storeOf [termStale]) ! 0) = nihongo"
    using 1 by (simp add: o s e emptyTables_def)
  have 7: "terms_expressionReverse (storedTerms (storeOf [termStale]) ! 0)
             = Some [0x8A9E, 0x672C, 0x65E5]"
    using 1 6 by (simp add: o s e emptyTables_def 5)
  have 8: "storedTerms (storeOf [termStale]) \<noteq> []"
    by (simp add: storedTerms_def terms_storeOf_one)
  have 9: "reversedColumns (storedTerms (storeOf [termStale]) ! 0)"
    using 2 8 by (simp add: o)
  show ?thesis
    using 3 4 5 6 7 9 by simp
qed

text \<open>
  The claim as stated fails in two ways. For the empty string: the row of a term with an
  empty expression and an empty reading has NULL in both reversed columns, not the
  reversal of the empty string. For a string with unpaired surrogates: of the expression
  U+DFB7 U+D842 the file holds U+FFFD U+FFFD, and in \<open>expressionReverse\<close> the surrogate
  pair U+D842 U+DFB7, which is not the reversal of what the expression column holds.
\<close>

theorem empty_expression_counterexample:
  "storedTerms (storeOf [termEmpty]) = [storedTerm (termRow 1 termEmpty)]
   \<and> terms_expression (storedTerm (termRow 1 termEmpty)) = []
   \<and> terms_reading (storedTerm (termRow 1 termEmpty)) = []
   \<and> terms_expressionReverse (storedTerm (termRow 1 termEmpty)) = None
   \<and> terms_readingReverse (storedTerm (termRow 1 termEmpty)) = None
   \<and> terms_expressionReverse (storedTerm (termRow 1 termEmpty))
       \<noteq> Some (reverseString (terms_expression (storedTerm (termRow 1 termEmpty))))
   \<and> terms_readingReverse (storedTerm (termRow 1 termEmpty))
       \<noteq> Some (reverseString (terms_reading (storedTerm (termRow 1 termEmpty))))
   \<and> storedTerms (storeOf [termSplit]) = [storedTerm (termRow 1 termSplit)]
   \<and> dte_expression termSplit = [0xDFB7, 0xD842]
   \<and> terms_expression (storedTerm (termRow 1 termSplit)) = [0xFFFD, 0xFFFD]
   \<and> terms_expressionReverse (storedTerm (termRow 1 termSplit)) = Some [0xD842, 0xDFB7]
   \<and> reverseString (terms_expression (storedTerm (termRow 1 termSplit))) = [0xFFFD, 0xFFFD]"
proof -
  have e: "terms_expression (storedTerm (termRow k termEmpty)) = []"
    "terms_reading (storedTerm (termRow k termEmpty)) = []"
    "terms_expressionReverse (storedTerm (termRow k termEmpty)) = None"
    "terms_readingReverse (storedTerm (termRow k termEmpty)) = None" for k
    by (simp_all add: stored_termRow termEmpty_def toWellFormed_def)
  show ?thesis
    by (simp add: storedTerms_def terms_storeOf_one e stored_termSplit)
       (simp add: termSplit_def)
qed

section \<open>Properties of the earlier copy's substring lookup\<close>








lemma prefix_pattern_plain:
  assumes "plainText q"
  shows "toWellFormed (q @ ascii ''%'') = q @ ascii ''%''"
    and "utf8_length (q @ ascii ''%'') = Suc (utf8_length q)"
proof -
  have w: "wellFormed q" using assms by (simp add: plainText_def)
  show "toWellFormed (q @ ascii ''%'') = q @ ascii ''%''"
    by (intro toWellFormed_id wellFormed_append w wellFormed_ascii_percent)
  show "utf8_length (q @ ascii ''%'') = Suc (utf8_length q)"
    by (simp add: utf8_length_append [OF wellFormed_ascii_percent] utf8_length_percent)
qed













section \<open>The lookups over the values and over the file\<close>

text \<open>
  On plain values the file keeps and the libsql client returns what was written: for a
  store of plain rows and plain queries shorter than the pattern limit, \<^verbatim>\<open>findTermsBulk\<close>
  over the database file is \<^verbatim>\<open>findTermsBulk\<close> over the values.
\<close>

lemma termsQuery_libsql_plain:
  assumes p: "\<forall>row \<in> set (terms store). plainTerm row"
    and t: "plainText t" and l: "utf8_length t < 50000"
  shows "termsQuery_libsql store m t = map_option Inr (termsQuery store m t)"
proof -
  have r: "returnedTerms (filter P (terms store)) = Inr (filter P (terms store))" for P
    using p by (intro returnedTerms_plain) simp
  have 1: "utf8_length (t @ ascii ''%'') \<le> 50000"
    using l by (simp add: prefix_pattern_plain [OF t])
  have 2: "utf8_length (reverseString t @ ascii ''%'') \<le> 50000"
    using l by (simp add: suffix_pattern_plain [OF t])
  show ?thesis
    by (cases m)
       (simp_all add: termsQuery_libsql_def termsQuery_def storedTerms_plain [OF p] r
          suffix_select_short [OF 1] suffix_select_short [OF 2]
          prefix_pattern_plain(1) [OF t] suffix_pattern_plain(1) [OF t]
          plainText_stored [OF t])
qed

lemma findTermsBulk_libsql_loop_plain:
  assumes p: "\<forall>row \<in> set (terms store). plainTerm row"
  shows "\<forall>t \<in> set ts. plainText t \<and> utf8_length t < 50000 \<Longrightarrow>
         findTermsBulk_libsql_loop store has m i ts results
           = findTermsBulk_loop store has m i ts results"
proof (induction ts arbitrary: i results)
  case Nil
  then show ?case by simp
next
  case (Cons t ts)
  have "termsQuery_libsql store m t = map_option Inr (termsQuery store m t)"
    using Cons.prems by (intro termsQuery_libsql_plain [OF p]) simp_all
  then show ?case
    using Cons.IH Cons.prems by (cases "termsQuery store m t") simp_all
qed

lemma findTermsBulk_libsql_plain:
  assumes "\<forall>row \<in> set (terms store). plainTerm row"
    and "\<forall>t \<in> set ts. plainText t \<and> utf8_length t < 50000"
  shows "findTermsBulk_libsql this store ts has m = findTermsBulk this store ts has m"
  by (simp add: findTermsBulk_libsql_def findTermsBulk_def
      findTermsBulk_libsql_loop_plain [OF assms] split: sum.splits)

text \<open>
  The rows that \<^verbatim>\<open>bulkAdd\<close> writes for plain items, with ids that are safe integers,
  are plain, and their reversed columns follow the rule.
\<close>

lemma bulkAdd_plain_rows:
  assumes c: "sq_drizzle (dd_db this) \<noteq> None" and s: "0 \<le> start"
    and p: "\<forall>row \<in> set (terms store). plainTerm row \<and> reversedColumns row"
    and t: "\<forall>item \<in> set ts. plainItem item"
    and n: "isSafeInteger (int (nextId (map terms_id (terms store)) + length ts))"
  shows "\<forall>row \<in> set (terms (snd (bulkAdd this store (TermsData ts) start count))).
           plainTerm row \<and> reversedColumns row"
proof -
  let ?n = "nextId (map terms_id (terms store))"
  let ?xs = "subSlice ts start count"
  have r: "terms (snd (bulkAdd this store (TermsData ts) start count))
             = terms store @ map (\<lambda>(k, x). termRow k x) (enumerate ?n ?xs)"
    by (simp add: bulkAdd_terms_rows [OF c s] subSlice_def)
  have len: "length ?xs \<le> length ts" by (simp add: subSlice_def)
  have sub: "set ?xs \<subseteq> set ts" by (auto simp add: subSlice_def)
  have "plainTerm (termRow k x) \<and> reversedColumns (termRow k x)"
    if "(k, x) \<in> set (enumerate ?n ?xs)" for k x
  proof -
    have k: "k < ?n + length ?xs" and x: "x \<in> set ?xs"
      using that by (auto simp add: in_set_enumerate_eq)
    have "isSafeInteger (int k)"
      using k len n by (simp add: isSafeInteger_def)
    moreover have "plainItem x" using x sub t by blast
    ultimately show ?thesis by (simp add: termRow_plain reversedColumns_termRow)
  qed
  then show ?thesis using p by (auto simp add: r)
qed

end
